theory Spec2Isabelle
  imports Complex_Main
begin

section \<open>JavaScript numbers\<close>

text \<open>
  A JavaScript number is an IEEE 754 binary64 value: \<open>Num r\<close> is the finite value \<open>r\<close>
  (with \<open>Num 0\<close> the positive zero), \<open>NegZero\<close> the negative zero. The arithmetic
  operations compute the exact result and round it to the nearest binary64 value, a tie
  going to the even significand; a result too large becomes an infinity, one too small a
  zero of its sign. Nothing ever throws.
\<close>

datatype jsnum = Num real | NegZero | PosInf | NegInf | NaN

text \<open>The number of binary digits of a natural number.\<close>

function bitLength :: "nat \<Rightarrow> nat" where
  "bitLength n = (if n = 0 then 0 else Suc (bitLength (n div 2)))"
  by pat_completeness auto
termination
  by (relation "measure id") auto

declare bitLength.simps [simp del]

text \<open>\<open>binaryExponent x\<close> is the integer \<open>e\<close> with \<open>2^e \<le> x < 2^(e+1)\<close>, for a
  positive \<open>x\<close>; \<open>pow2 k\<close> is \<open>2^k\<close> for an integer \<open>k\<close>.\<close>

definition binaryExponent :: "real \<Rightarrow> int" where
  "binaryExponent x =
     (if 1 \<le> x then int (bitLength (nat \<lfloor>x\<rfloor>)) - 1
      else - int (bitLength (nat (\<lceil>1 / x\<rceil> - 1))))"

definition pow2 :: "int \<Rightarrow> real" where
  "pow2 k = (if 0 \<le> k then 2 ^ nat k else 1 / 2 ^ nat (- k))"

definition roundHalfEven :: "real \<Rightarrow> int" where
  "roundHalfEven x =
     (let f = \<lfloor>x\<rfloor> in
      if x - of_int f < 1 / 2 then f
      else if 1 / 2 < x - of_int f then f + 1
      else if even f then f else f + 1)"

text \<open>
  Rounding of an exact result to binary64. The significand has 53 bits, so between
  \<open>2^e\<close> and \<open>2^(e+1)\<close> the values are the multiples of \<open>2^(e-52)\<close>; below \<open>2^-1022\<close>
  (the subnormal range) they are the multiples of \<open>2^-1074\<close>. \<open>m\<close> is the magnitude in
  these units. The largest finite value is \<open>(2^53 - 1) * 2^971\<close>: a magnitude that
  rounds to \<open>2^1024\<close> or more is an infinity.
\<close>

definition roundToDouble :: "real \<Rightarrow> jsnum" where
  "roundToDouble x =
     (if x = 0 then Num 0
      else
        (let e = max (binaryExponent \<bar>x\<bar>) (- 1022);
             m = roundHalfEven (\<bar>x\<bar> / pow2 (e - 52))
         in if 1024 \<le> e \<or> (e = 1023 \<and> 2 ^ 53 \<le> m) then (if 0 < x then PosInf else NegInf)
            else if m = 0 then (if 0 < x then Num 0 else NegZero)
            else Num ((if 0 < x then 1 else - 1) * of_int m * pow2 (e - 52))))"

text \<open>The sign bit, the two zeros, the two infinities, and the value of a finite
  number.\<close>

definition negative :: "jsnum \<Rightarrow> bool" where
  "negative x =
     (case x of Num a \<Rightarrow> a < 0 | NegZero \<Rightarrow> True | PosInf \<Rightarrow> False | NegInf \<Rightarrow> True
      | NaN \<Rightarrow> False)"

definition isZero :: "jsnum \<Rightarrow> bool" where
  "isZero x = (x = Num 0 \<or> x = NegZero)"

definition isInfinite :: "jsnum \<Rightarrow> bool" where
  "isInfinite x = (x = PosInf \<or> x = NegInf)"

definition finiteValue :: "jsnum \<Rightarrow> real" where
  "finiteValue x = (case x of Num a \<Rightarrow> a | _ \<Rightarrow> 0)"

instantiation jsnum :: "{plus, minus, uminus, times, inverse, ord}"
begin

fun uminus_jsnum :: "jsnum \<Rightarrow> jsnum" where
  "uminus_jsnum (Num a) = (if a = 0 then NegZero else Num (- a))"
| "uminus_jsnum NegZero = Num 0"
| "uminus_jsnum PosInf = NegInf"
| "uminus_jsnum NegInf = PosInf"
| "uminus_jsnum NaN = NaN"

text \<open>A sum that is exactly zero is the positive zero, unless both terms are the
  negative zero.\<close>

fun plus_jsnum :: "jsnum \<Rightarrow> jsnum \<Rightarrow> jsnum" where
  "plus_jsnum NaN _ = NaN"
| "plus_jsnum _ NaN = NaN"
| "plus_jsnum PosInf NegInf = NaN"
| "plus_jsnum NegInf PosInf = NaN"
| "plus_jsnum PosInf _ = PosInf"
| "plus_jsnum _ PosInf = PosInf"
| "plus_jsnum NegInf _ = NegInf"
| "plus_jsnum _ NegInf = NegInf"
| "plus_jsnum NegZero b = b"
| "plus_jsnum a NegZero = a"
| "plus_jsnum (Num a) (Num b) = roundToDouble (a + b)"

definition minus_jsnum :: "jsnum \<Rightarrow> jsnum \<Rightarrow> jsnum" where
  "minus_jsnum a b = a + (- b)"

text \<open>The sign of a product or quotient is the exclusive or of the signs; infinity
  times zero, zero by zero and infinity by infinity are \<open>NaN\<close>; a finite number that is
  not zero, divided by a zero, is an infinity.\<close>

definition times_jsnum :: "jsnum \<Rightarrow> jsnum \<Rightarrow> jsnum" where
  "times_jsnum a b =
     (if a = NaN \<or> b = NaN then NaN
      else if isInfinite a \<or> isInfinite b then
        (if isZero a \<or> isZero b then NaN
         else if negative a \<noteq> negative b then NegInf else PosInf)
      else if isZero a \<or> isZero b then (if negative a \<noteq> negative b then NegZero else Num 0)
      else roundToDouble (finiteValue a * finiteValue b))"

definition divide_jsnum :: "jsnum \<Rightarrow> jsnum \<Rightarrow> jsnum" where
  "divide_jsnum a b =
     (if a = NaN \<or> b = NaN then NaN
      else if isInfinite a then
        (if isInfinite b then NaN
         else if negative a \<noteq> negative b then NegInf else PosInf)
      else if isInfinite b then (if negative a \<noteq> negative b then NegZero else Num 0)
      else if isZero b then
        (if isZero a then NaN
         else if negative a \<noteq> negative b then NegInf else PosInf)
      else if isZero a then (if negative a \<noteq> negative b then NegZero else Num 0)
      else roundToDouble (finiteValue a / finiteValue b))"

definition inverse_jsnum :: "jsnum \<Rightarrow> jsnum" where
  "inverse_jsnum a = divide (Num 1) a"

text \<open>Every comparison with \<open>NaN\<close> is false, and the two zeros are equal, as in
  JavaScript. \<open>a > b\<close> is \<open>b < a\<close>.\<close>

fun less_jsnum :: "jsnum \<Rightarrow> jsnum \<Rightarrow> bool" where
  "less_jsnum NaN _ = False"
| "less_jsnum _ NaN = False"
| "less_jsnum _ NegInf = False"
| "less_jsnum NegInf _ = True"
| "less_jsnum PosInf _ = False"
| "less_jsnum _ PosInf = True"
| "less_jsnum a b = (finiteValue a < finiteValue b)"

definition less_eq_jsnum :: "jsnum \<Rightarrow> jsnum \<Rightarrow> bool" where
  "less_eq_jsnum a b = (a \<noteq> NaN \<and> b \<noteq> NaN \<and> \<not> b < a)"

instance ..

end


section \<open>Tooltip geometry\<close>

text \<open>
  \<open>DOMRect\<close> is what \<open>getBoundingClientRect()\<close> returns (viewport coordinates);
  \<open>SVGRect\<close> is what \<open>getBBox()\<close> and \<open>viewBox.baseVal\<close> return (SVG user
  space).
\<close>

record DOMRect =
  rect_left :: jsnum
  rect_top :: jsnum
  rect_width :: jsnum
  rect_height :: jsnum

record SVGRect =
  box_x :: jsnum
  box_y :: jsnum
  box_width :: jsnum
  box_height :: jsnum

datatype tooltipTrigger = Hover | Click

record pointerEvent =
  clientX :: jsnum
  clientY :: jsnum

text \<open>The \<open>activeTooltip\<close> state of \<open>MapDisplay\<close>: a region id and, for a tooltip
  that follows the pointer, the last mouse-move event.\<close>

record activeTooltip =
  at_id :: string
  at_event :: "pointerEvent option"

text \<open>What the click branch reads from the DOM once both the region element and the
  \<open>svg\<close> element were found: the region's bounding box, the svg's screen rectangle
  and its viewBox.\<close>

record clickTarget =
  bbox :: SVGRect
  svgRect :: DOMRect
  viewBox :: SVGRect

text \<open>
  The outcome of the two DOM lookups of the click branch, \<open>querySelector\<close> with the
  escaped region id and \<open>querySelector('svg')\<close>: both elements found, one of them
  missing, or a \<open>SyntaxError\<close> thrown by the first for a selector the browser rejects.
  Nothing in the effect catches that error.
\<close>

datatype 'a lookup = Resolved 'a | Missing | SelectorError

text \<open>The errors the modelled code can raise. \<open>RangeError\<close> is what the engine throws
  when a call never ends and the stack is exhausted (one engine names it
  \<open>InternalError\<close>).\<close>

datatype jsError = SyntaxError | TypeError | RangeError

text \<open>
  The positioning layout effect of the live editor (\<open>MapDisplay\<close>), for the case where
  an active tooltip, its element and the container exist. The result is the pair
  \<open>(left, top)\<close> that the effect writes to the tooltip's style before it sets the
  opacity to 1 (both start at 0), or the error that escapes from it.
\<close>

definition positionTooltip ::
  "tooltipTrigger \<Rightarrow> activeTooltip \<Rightarrow> DOMRect \<Rightarrow> DOMRect \<Rightarrow> jsnum \<Rightarrow> jsnum \<Rightarrow>
   clickTarget lookup \<Rightarrow> jsError + jsnum \<times> jsnum" where
  "positionTooltip trigger active tooltipRect containerRect innerWidth innerHeight target =
    (if trigger = Hover \<and> at_event active \<noteq> None then
       (let ev = the (at_event active);
            offsetX = Num 15;
            left0 = clientX ev + offsetX;
            left1 = (if left0 + rect_width tooltipRect > innerWidth
                     then clientX ev - rect_width tooltipRect - offsetX else left0);
            top0 = clientY ev + offsetX;
            top1 = (if top0 + rect_height tooltipRect > innerHeight
                    then clientY ev - rect_height tooltipRect - offsetX else top0)
        in Inr (left1 - rect_left containerRect, top1 - rect_top containerRect))
     else if trigger = Click then
       (case target of
          SelectorError \<Rightarrow> Inl SyntaxError
        | Missing \<Rightarrow> Inr (Num 0, Num 0)
        | Resolved t \<Rightarrow>
            if box_width (viewBox t) > Num 0 then
              (let scaleX = rect_width (svgRect t) / box_width (viewBox t);
                   scaleY = rect_height (svgRect t) / box_height (viewBox t);
                   elementCenterX = (rect_left (svgRect t) - rect_left containerRect)
                     + (box_x (bbox t) + box_width (bbox t) / Num 2) * scaleX;
                   elementTopY = (rect_top (svgRect t) - rect_top containerRect)
                     + box_y (bbox t) * scaleY;
                   elementBottomY = (rect_top (svgRect t) - rect_top containerRect)
                     + (box_y (bbox t) + box_height (bbox t)) * scaleY;
                   offset = Num 10;
                   top0 = elementTopY - rect_height tooltipRect - offset;
                   top1 = (if top0 < Num 0 then elementBottomY + offset else top0);
                   left0 = elementCenterX - rect_width tooltipRect / Num 2;
                   left1 = (if left0 < Num 0 then offset else left0);
                   left2 = (if left1 + rect_width tooltipRect > rect_width containerRect
                            then rect_width containerRect - rect_width tooltipRect - offset
                            else left1)
               in Inr (left2, top1))
            else Inr (Num 0, Num 0))
     else Inr (Num 0, Num 0))"

text \<open>
  The click handler of the exported script (\<open>generateEmbedCode\<close>), from
  \<open>region.getBBox()\<close> to the two style assignments. \<open>offsetWidth\<close> and
  \<open>offsetHeight\<close> are the tooltip's measured size. The scale is computed without a
  guard on the viewBox.
\<close>

definition exportClickPlacement ::
  "SVGRect \<Rightarrow> DOMRect \<Rightarrow> DOMRect \<Rightarrow> SVGRect \<Rightarrow> jsnum \<Rightarrow> jsnum \<Rightarrow> jsnum \<times> jsnum" where
  "exportClickPlacement bb svgR containerRect vb offsetWidth offsetHeight =
    (let scaleX = rect_width svgR / box_width vb;
         scaleY = rect_height svgR / box_height vb;
         x = rect_left svgR - rect_left containerRect
               + (box_x bb + box_width bb / Num 2) * scaleX;
         y = rect_top svgR - rect_top containerRect
               + (box_y bb + box_height bb / Num 2) * scaleY;
         left0 = x - offsetWidth / Num 2;
         top0 = y - offsetHeight - Num 10;
         top1 = (if top0 < rect_top containerRect
                 then y + box_height bb / Num 2 * scaleY + Num 10 else top0);
         left1 = (if left0 < Num 0 then Num 10 else left0);
         left2 = (if left1 + offsetWidth > rect_width containerRect
                  then rect_width containerRect - offsetWidth - Num 10 else left1)
     in (left2, top1))"

text \<open>The mouse-move handler of the exported script, from the pointer's page
  coordinates to the two style assignments.\<close>

definition exportHoverPlacement ::
  "jsnum \<Rightarrow> jsnum \<Rightarrow> DOMRect \<Rightarrow> jsnum \<Rightarrow> jsnum \<Rightarrow> jsnum \<times> jsnum" where
  "exportHoverPlacement pageX pageY containerRect offsetWidth offsetHeight =
    (let left0 = pageX - rect_left containerRect + Num 15;
         top0 = pageY - rect_top containerRect + Num 15;
         left1 = (if left0 + offsetWidth > rect_width containerRect
                  then pageX - rect_left containerRect - offsetWidth - Num 15 else left0);
         top1 = (if top0 + offsetHeight > rect_height containerRect
                 then pageY - rect_top containerRect - offsetHeight - Num 15 else top0)
     in (left1, top1))"


section \<open>Strings\<close>

text \<open>
  Strings are lists of 8-bit characters, read as the Latin-1 range of JavaScript's
  UTF-16 code units. \<open>isWhiteSpace\<close> is what the regular expression \<open>\s\<close> and
  \<open>String.prototype.trim\<close> take for white space in that range.
\<close>

definition isWhiteSpace :: "char \<Rightarrow> bool" where
  "isWhiteSpace c = (c \<in> set [CHR 0x09, CHR 0x0A, CHR 0x0B, CHR 0x0C, CHR 0x0D, CHR 0x20, CHR 0xA0])"

definition trim :: "string \<Rightarrow> string" where
  "trim s = rev (dropWhile isWhiteSpace (rev (dropWhile isWhiteSpace s)))"

definition padStart :: "nat \<Rightarrow> char \<Rightarrow> string \<Rightarrow> string" where
  "padStart n c s = replicate (n - length s) c @ s"

definition hexDigitValue :: "char \<Rightarrow> nat option" where
  "hexDigitValue c =
    (let n = (of_char c :: nat) in
     if 48 \<le> n \<and> n \<le> 57 then Some (n - 48)
     else if 97 \<le> n \<and> n \<le> 102 then Some (n - 87)
     else if 65 \<le> n \<and> n \<le> 70 then Some (n - 55)
     else None)"

definition digitChar :: "nat \<Rightarrow> char" where
  "digitChar d = ''0123456789abcdefghijklmnopqrstuvwxyz'' ! d"

text \<open>\<open>Number.prototype.toString(radix)\<close> on a non-negative integer, for a radix from
  2 to 36 (lower-case digits).\<close>

function toStringRadix :: "nat \<Rightarrow> nat \<Rightarrow> string" where
  "toStringRadix radix n =
    (if radix < 2 \<or> n < radix then [digitChar n]
     else toStringRadix radix (n div radix) @ [digitChar (n mod radix)])"
  by pat_completeness auto
termination
  by (relation "measure (\<lambda>(radix, n). n)") auto

declare toStringRadix.simps [simp del]

text \<open>
  \<open>parseInt(s, 16)\<close>: leading white space is skipped, then an optional sign, then an
  optional \<open>0x\<close> prefix; the value is that of the longest run of hexadecimal digits that
  follows. \<open>None\<close> is \<open>NaN\<close> (no digit). The value is exact (binary64 is, up to
  thirteen hexadecimal digits).
\<close>

definition parseInt16 :: "string \<Rightarrow> int option" where
  "parseInt16 s =
    (let s1 = dropWhile isWhiteSpace s;
         negative = (take 1 s1 = [CHR 0x2D]);
         s2 = (if take 1 s1 = [CHR 0x2D] \<or> take 1 s1 = [CHR 0x2B] then drop 1 s1 else s1);
         s3 = (if take 2 s2 = [CHR 0x30, CHR 0x78] \<or> take 2 s2 = [CHR 0x30, CHR 0x58]
               then drop 2 s2 else s2);
         digits = takeWhile (\<lambda>c. hexDigitValue c \<noteq> None) s3;
         magnitude = foldl (\<lambda>acc c. 16 * acc + the (hexDigitValue c)) 0 digits
     in if digits = [] then None
        else Some (if negative then - int magnitude else int magnitude))"

text \<open>\<open>ToInt32\<close>, applied by \<open>>>\<close> and \<open>&\<close> to their left operand: \<open>NaN\<close> becomes 0,
  an integer wraps to 32 bits, two's complement.\<close>

definition toInt32 :: "int option \<Rightarrow> int" where
  "toInt32 v = (case v of None \<Rightarrow> 0 | Some n \<Rightarrow> (n + 2 ^ 31) mod 2 ^ 32 - 2 ^ 31)"

text \<open>\<open>Math.round\<close>: the nearest integer, a tie going towards plus infinity.\<close>

definition mathRound :: "real \<Rightarrow> int" where
  "mathRound x = \<lfloor>x + 1 / 2\<rfloor>"


section \<open>Colour shade\<close>

text \<open>The template string that ends \<open>adjustColorShade\<close>: a hash sign and each channel
  as hexadecimal digits, padded to two with \<open>0\<close>.\<close>

definition rgbString :: "int \<Rightarrow> int \<Rightarrow> int \<Rightarrow> string" where
  "rgbString r g b =
     CHR 0x23 # padStart 2 (CHR 0x30) (toStringRadix 16 (nat r))
       @ padStart 2 (CHR 0x30) (toStringRadix 16 (nat g))
       @ padStart 2 (CHR 0x30) (toStringRadix 16 (nat b))"

text \<open>
  \<open>adjustColorShade\<close> of the application shell. \<open>percent\<close> is a finite number. The
  literal \<open>2.55\<close> is the binary64 value nearest to it, and the product is rounded to
  binary64; \<open>Math.round\<close> of the product and the sums with the channels are exact. A
  product that overflows is an infinity, which the clamp turns into 255 or 0.
\<close>

definition adjustColorShade :: "string \<Rightarrow> real \<Rightarrow> string" where
  "adjustColorShade hex percent =
    (let color0 = (if take 1 hex = [CHR 0x23] then drop 1 hex else hex);
         color = (if length color0 = 3 then concat (map (\<lambda>c. [c, c]) color0) else color0);
         num = parseInt16 color;
         product = roundToDouble (255 / 100) * Num percent;
         shifted = (\<lambda>channel.
           if product = PosInf then 255
           else if product = NegInf then 0
           else max 0 (min 255 (channel + mathRound (finiteValue product))));
         r = shifted (toInt32 num div 2 ^ 16);
         g = shifted ((toInt32 num div 2 ^ 8) mod 2 ^ 8);
         b = shifted (toInt32 num mod 2 ^ 8)
     in rgbString r g b)"


section \<open>Document, annotation store and editor state\<close>

record RegionData =
  title :: string
  description :: string
  link :: string
  tooltipImageSrc :: "string option"

text \<open>
  An element of the document inside the map container. \<open>el_id\<close> is the \<open>id\<close>
  property (empty when the element has none), \<open>attr_stroke\<close> the \<open>stroke\<close> attribute,
  \<open>originalStroke\<close> the expando property the styling effect stores on the node, and
  \<open>listeners\<close> the event listeners added so far, each an event type and the name of the
  handler. The document is the list of these elements in document order, the order in
  which \<open>querySelectorAll\<close> returns them.
\<close>

record element =
  tagName :: string
  el_id :: string
  classList :: "string list"
  style_fill :: string
  style_stroke :: string
  style_strokeWidth :: string
  style_cursor :: string
  attr_stroke :: "string option"
  originalStroke :: "string option"
  listeners :: "(string \<times> string) list"

datatype editorMode = Edit | Preview

record GlobalTooltipSettings =
  tooltipTrigger :: tooltipTrigger
  tooltipBackgroundColor :: string
  tooltipTextColor :: string
  tooltipTitleFontSize :: nat
  tooltipDescriptionFontSize :: nat
  defaultRegionColor :: string
  defaultRegionHoverColor :: string

record IdChangeOp =
  oldId :: string
  newId :: string

text \<open>
  The annotation store \<open>customizationData\<close> is a JavaScript object used as a dictionary.
  \<open>App\<close> creates it with an object literal and replaces it with a spread copy on every
  update, so its prototype is \<open>Object.prototype\<close>: a property read that finds no own
  property is answered with the member of \<open>Object.prototype\<close> of that name, when there
  is one. These members are eleven functions and, under \<open>__proto__\<close>, an accessor whose
  getter returns the prototype object itself.
\<close>

datatype builtin =
    Constructor | DefineGetter | DefineSetter | HasOwnProperty | LookupGetter | LookupSetter
  | IsPrototypeOf | PropertyIsEnumerable | ToString | ValueOf | ToLocaleString
  | ObjectPrototype

definition inheritedMember :: "string \<Rightarrow> builtin option" where
  "inheritedMember name =
     map_of
       [(''constructor'', Constructor), (''__defineGetter__'', DefineGetter),
        (''__defineSetter__'', DefineSetter), (''hasOwnProperty'', HasOwnProperty),
        (''__lookupGetter__'', LookupGetter), (''__lookupSetter__'', LookupSetter),
        (''isPrototypeOf'', IsPrototypeOf), (''propertyIsEnumerable'', PropertyIsEnumerable),
        (''toString'', ToString), (''valueOf'', ValueOf),
        (''toLocaleString'', ToLocaleString), (''__proto__'', ObjectPrototype)] name"

text \<open>
  A value held by the store: a record, or a member of \<open>Object.prototype\<close> that a rename
  has copied into it. Every such value is an object, so it is truthy.
\<close>

datatype storeValue = Record RegionData | Builtin builtin

text \<open>\<open>obj[name]\<close> for an object with the own properties \<open>obj\<close> and the prototype
  \<open>Object.prototype\<close>; \<open>None\<close> is \<open>undefined\<close>.\<close>

definition getProperty :: "(string \<rightharpoonup> storeValue) \<Rightarrow> string \<Rightarrow> storeValue option" where
  "getProperty obj name =
     (case obj name of
        Some v \<Rightarrow> Some v
      | None \<Rightarrow> map_option Builtin (inheritedMember name))"

text \<open>
  \<open>callMember f obj key\<close>: the member \<open>f\<close> of \<open>Object.prototype\<close> called as a method of
  the object with one string argument; the result is its truthiness, or the error
  raised. The key \<open>undefined\<close> is what a missing argument turns into where the function
  takes a property key.

  \<^item> \<open>hasOwnProperty\<close> and \<open>propertyIsEnumerable\<close> tell whether the key is an own
    property (all own properties of the store are enumerable).
  \<^item> \<open>Object(key)\<close> is a wrapper object, \<open>toString\<close> a non-empty string and \<open>valueOf\<close>
    the object itself: all truthy.
  \<^item> \<open>isPrototypeOf\<close> answers \<open>false\<close> for an argument that is not an object.
  \<^item> \<open>__defineGetter__\<close> and \<open>__defineSetter__\<close> throw a \<open>TypeError\<close> for want of a
    callable second argument.
  \<^item> \<open>__lookupGetter__\<close> and \<open>__lookupSetter__\<close> answer with a function only for an
    accessor property, and the only one in reach is the inherited \<open>__proto__\<close>.
  \<^item> The prototype object is not callable.
  \<^item> \<open>toLocaleString\<close> calls \<open>this.toString()\<close> without argument, whatever
    \<open>toString\<close> is on the object; if it is \<open>toLocaleString\<close> itself the call never
    ends.
\<close>

function callMember :: "builtin \<Rightarrow> (string \<rightharpoonup> storeValue) \<Rightarrow> string \<Rightarrow> jsError + bool" where
  "callMember Constructor obj key = Inr True"
| "callMember DefineGetter obj key = Inl TypeError"
| "callMember DefineSetter obj key = Inl TypeError"
| "callMember HasOwnProperty obj key = Inr (obj key \<noteq> None)"
| "callMember LookupGetter obj key = Inr (obj key = None \<and> key = ''__proto__'')"
| "callMember LookupSetter obj key = Inr (obj key = None \<and> key = ''__proto__'')"
| "callMember IsPrototypeOf obj key = Inr False"
| "callMember PropertyIsEnumerable obj key = Inr (obj key \<noteq> None)"
| "callMember ToString obj key = Inr True"
| "callMember ValueOf obj key = Inr True"
| "callMember ObjectPrototype obj key = Inl TypeError"
| "callMember ToLocaleString obj key =
     (case getProperty obj ''toString'' of
        Some (Builtin g) \<Rightarrow>
          if g = ToLocaleString then Inl RangeError else callMember g obj ''undefined''
      | Some (Record r) \<Rightarrow> Inl TypeError
      | None \<Rightarrow> Inl TypeError)"
  by pat_completeness auto
termination
  by (relation "measure (\<lambda>(f, obj, key). if f = ToLocaleString then 1 else 0)") auto

text \<open>\<open>customizationData.hasOwnProperty(key)\<close>: the method is looked up on the store
  like any property, so an own property of that name takes its place; a record there is
  not a function.\<close>

definition hasOwnPropertyCall :: "(string \<rightharpoonup> storeValue) \<Rightarrow> string \<Rightarrow> jsError + bool" where
  "hasOwnPropertyCall obj key =
     (case getProperty obj ''hasOwnProperty'' of
        Some (Builtin f) \<Rightarrow> callMember f obj key
      | Some (Record r) \<Rightarrow> Inl TypeError
      | None \<Rightarrow> Inl TypeError)"

text \<open>
  The state of \<open>App\<close> that a selection or a rename touches, with the document that
  \<open>MapDisplay\<close> keeps in its container. \<open>customizationData\<close> holds the own properties of
  the store.
\<close>

record editor =
  elements :: "element list"
  customizationData :: "string \<rightharpoonup> storeValue"
  selectedRegionId :: "string option"

definition CLICKABLE_ELEMENTS :: "string list" where
  "CLICKABLE_ELEMENTS = [''path'', ''g'', ''rect'', ''circle'', ''polygon'', ''ellipse'']"

definition isClickable :: "element \<Rightarrow> bool" where
  "isClickable e = (tagName e \<in> set CLICKABLE_ELEMENTS)"


section \<open>Renaming a region\<close>

text \<open>
  The answer of the browser's \<open>querySelector\<close>: an element (its position in the
  document), \<open>null\<close>, or a thrown \<open>SyntaxError\<close>. The browser is a parameter of the
  model: a function from the selector text and the document to this answer.
\<close>

datatype qs_result = Found nat | NotFound | Threw

type_synonym querySelector = "string \<Rightarrow> element list \<Rightarrow> qs_result"

text \<open>The characters the rename effect escapes with a backslash before it builds the
  selector: \<open>!"#$%&'()*+,./:;<=>?@[\]^`{|}~\<close>.\<close>

definition selectorSpecials :: "char list" where
  "selectorSpecials =
     [CHR 0x21, CHR 0x22, CHR 0x23, CHR 0x24, CHR 0x25, CHR 0x26, CHR 0x27, CHR 0x28,
      CHR 0x29, CHR 0x2A, CHR 0x2B, CHR 0x2C, CHR 0x2E, CHR 0x2F, CHR 0x3A, CHR 0x3B,
      CHR 0x3C, CHR 0x3D, CHR 0x3E, CHR 0x3F, CHR 0x40, CHR 0x5B, CHR 0x5C, CHR 0x5D,
      CHR 0x5E, CHR 0x60, CHR 0x7B, CHR 0x7C, CHR 0x7D, CHR 0x7E]"

definition escapeSelectorId :: "string \<Rightarrow> string" where
  "escapeSelectorId s =
     concat (map (\<lambda>c. if c \<in> set selectorSpecials then [CHR 0x5C, c] else [c]) s)"

text \<open>
  The layout effect of \<open>MapDisplay\<close> that runs when \<open>idChangeOp\<close> is set: it looks the
  old id up with an escaped selector and, when an element is found, rewrites its id. A
  thrown error is caught and logged, and the document is left as it is.
\<close>

definition applyIdChange :: "querySelector \<Rightarrow> IdChangeOp \<Rightarrow> element list \<Rightarrow> element list" where
  "applyIdChange qs change els =
    (case qs (CHR 0x23 # escapeSelectorId (oldId change)) els of
       Found i \<Rightarrow> els[i := (els ! i)\<lparr>el_id := newId change\<rparr>]
     | NotFound \<Rightarrow> els
     | Threw \<Rightarrow> els)"

text \<open>
  \<open>handleRegionIdChange\<close> of \<open>App\<close>, together with the layout effect that its
  \<open>setIdChangeOp\<close> triggers. It returns a boolean, with the state after the updates it
  scheduled, or raises an error before any update, and then the state is as it was.

  The updater copies the store (the one the check was made on: nothing else updates
  it in between), reads \<open>newData[oldId]\<close>, deletes that key and, when
  what it read is truthy, assigns it to \<open>newData[trimmedNewId]\<close>. The assignment adds or
  overwrites an own property, except for the key \<open>__proto__\<close> when the copy has no own
  property of that name: then the inherited setter runs and makes the assigned object
  the prototype of the new store, and no key is added. A store with another prototype
  than \<open>Object.prototype\<close> is beyond the states modelled here; \<open>PrototypeReplaced\<close>
  is that outcome, with the rest of the new state and the object that became the
  prototype. (Assigning the prototype object itself changes nothing.)
\<close>

datatype renameResult =
    Returned bool editor
  | Raised jsError
  | PrototypeReplaced editor storeValue

definition handleRegionIdChange ::
  "querySelector \<Rightarrow> string \<Rightarrow> string \<Rightarrow> editor \<Rightarrow> renameResult" where
  "handleRegionIdChange qs old new st =
    (let trimmedNewId = trim new in
     if old = trimmedNewId then Returned True st
     else if trimmedNewId = [] \<or> (\<exists>c \<in> set trimmedNewId. isWhiteSpace c) then Returned False st
     else
       (case hasOwnPropertyCall (customizationData st) trimmedNewId of
          Inl err \<Rightarrow> Raised err
        | Inr inUse \<Rightarrow>
            if inUse then Returned False st
            else
              (let newData = (customizationData st)(old := None);
                   moved = st\<lparr>elements :=
                                applyIdChange qs \<lparr>oldId = old, newId = trimmedNewId\<rparr> (elements st),
                              customizationData := newData,
                              selectedRegionId := Some trimmedNewId\<rparr>
               in case getProperty (customizationData st) old of
                    None \<Rightarrow> Returned True moved
                  | Some regionInfo \<Rightarrow>
                      if trimmedNewId = ''__proto__'' \<and> newData ''__proto__'' = None then
                        (if regionInfo = Builtin ObjectPrototype then Returned True moved
                         else PrototypeReplaced moved regionInfo)
                      else
                        Returned True
                          (moved\<lparr>customizationData := newData(trimmedNewId \<mapsto> regionInfo)\<rparr>))))"

text \<open>What the caller gets back: the boolean, or nothing when an error was raised.\<close>

definition returnValue :: "renameResult \<Rightarrow> bool option" where
  "returnValue res =
     (case res of
        Returned ok st \<Rightarrow> Some ok
      | Raised err \<Rightarrow> None
      | PrototypeReplaced st v \<Rightarrow> Some True)"


text \<open>
  A browser for the examples: \<open>querySelector\<close> as CSS defines it on a selector that is
  one id selector, a hash sign and an identifier in which a backslash makes the next
  character literal. The identifier must start like one (a letter, an underscore, a
  non-ASCII character or an escape, possibly after a hyphen), otherwise the selector is a
  syntax error: \<open>#1\<close> is one. The answer is the first element in document order with
  that id. Selector texts of any other form are answered \<open>Threw\<close> as well; the examples
  do not use them.
\<close>

definition isNameStart :: "char \<Rightarrow> bool" where
  "isNameStart c =
    (let n = (of_char c :: nat) in
     (65 \<le> n \<and> n \<le> 90) \<or> (97 \<le> n \<and> n \<le> 122) \<or> n = 95 \<or> 128 \<le> n)"

definition isNameChar :: "char \<Rightarrow> bool" where
  "isNameChar c =
    (let n = (of_char c :: nat) in isNameStart c \<or> (48 \<le> n \<and> n \<le> 57) \<or> n = 45)"

definition isValidEscape :: "string \<Rightarrow> bool" where
  "isValidEscape s =
    (case s of
       c # d # _ \<Rightarrow> c = CHR 0x5C \<and> d \<noteq> CHR 0x0A \<and> d \<noteq> CHR 0x0C \<and> d \<noteq> CHR 0x0D
     | _ \<Rightarrow> False)"

fun cssUnescape :: "string \<Rightarrow> string option" where
  "cssUnescape [] = Some []"
| "cssUnescape [c] = (if isNameChar c then Some [c] else None)"
| "cssUnescape (c # d # s) =
     (if c = CHR 0x5C then
        (if isValidEscape (c # d # s) \<and> hexDigitValue d = None
         then map_option (\<lambda>r. d # r) (cssUnescape s) else None)
      else if isNameChar c then map_option (\<lambda>r. c # r) (cssUnescape (d # s))
      else None)"

definition startsIdentifier :: "string \<Rightarrow> bool" where
  "startsIdentifier s =
    (case s of
       [] \<Rightarrow> False
     | c # r \<Rightarrow>
         if c = CHR 0x2D
         then (case r of
                 [] \<Rightarrow> False
               | d # _ \<Rightarrow> isNameStart d \<or> d = CHR 0x2D \<or> isValidEscape r)
         else isNameStart c \<or> isValidEscape s)"

fun firstWithId :: "string \<Rightarrow> element list \<Rightarrow> nat option" where
  "firstWithId name [] = None"
| "firstWithId name (e # es) =
     (if el_id e = name then Some 0 else map_option Suc (firstWithId name es))"

definition idSelectorBrowser :: querySelector where
  "idSelectorBrowser selector els =
    (case selector of
       [] \<Rightarrow> Threw
     | h # rest \<Rightarrow>
         if h = CHR 0x23 \<and> startsIdentifier rest then
           (case cssUnescape rest of
              None \<Rightarrow> Threw
            | Some name \<Rightarrow>
                (case firstWithId name els of None \<Rightarrow> NotFound | Some i \<Rightarrow> Found i))
         else Threw)"


text \<open>Documents and editor states for the examples. \<open>shape tag ident\<close> is an element
  as the parser creates it: no inline style, no class, no listener.\<close>

definition shape :: "string \<Rightarrow> string \<Rightarrow> element" where
  "shape tag ident =
     \<lparr>tagName = tag, el_id = ident, classList = [], style_fill = [], style_stroke = [],
      style_strokeWidth = [], style_cursor = [], attr_stroke = None, originalStroke = None,
      listeners = []\<rparr>"

definition record_titled :: "string \<Rightarrow> RegionData" where
  "record_titled t = \<lparr>title = t, description = [], link = [], tooltipImageSrc = Some []\<rparr>"

text \<open>Two paths \<open>a\<close> and \<open>b\<close>, both with a record; \<open>a\<close> is selected.\<close>

definition twoRegionEditor :: editor where
  "twoRegionEditor =
     \<lparr>elements = [shape ''path'' ''a'', shape ''path'' ''b''],
      customizationData =
        [''a'' \<mapsto> Record (record_titled ''A''), ''b'' \<mapsto> Record (record_titled ''B'')],
      selectedRegionId = Some ''a''\<rparr>"

text \<open>One path whose id is \<open>1\<close>, with a record, selected.\<close>

definition numericIdEditor :: editor where
  "numericIdEditor =
     \<lparr>elements = [shape ''path'' ''1''],
      customizationData = [''1'' \<mapsto> Record (record_titled ''One'')],
      selectedRegionId = Some ''1''\<rparr>"



section \<open>Region indexing\<close>

text \<open>
  The loop of the SVG setup effect: \<open>querySelectorAll\<close> yields the elements of the
  addressable kinds in document order, and each one whose id is empty gets
  \<open>map-region-<idCounter++>\<close>. The model walks the whole document and skips the
  elements the selector does not match. The first argument is \<open>idCounter\<close>.
\<close>

fun assignIds :: "nat \<Rightarrow> element list \<Rightarrow> element list" where
  "assignIds idCounter [] = []"
| "assignIds idCounter (e # es) =
     (if isClickable e \<and> el_id e = []
      then e\<lparr>el_id := ''map-region-'' @ toStringRadix 10 idCounter\<rparr> # assignIds (Suc idCounter) es
      else e # assignIds idCounter es)"

definition indexRegions :: "element list \<Rightarrow> element list" where
  "indexRegions els = assignIds 0 els"


section \<open>Interaction styling\<close>

text \<open>The listener effect of the live editor: every addressable element gets the
  click, mouse-move and mouse-leave handlers.\<close>

definition attachEditorListeners :: "element list \<Rightarrow> element list" where
  "attachEditorListeners els =
     map (\<lambda>e. if isClickable e
               then e\<lparr>listeners := listeners e @
                      [(''click'', ''handleClick''), (''mousemove'', ''handleMouseMove''),
                       (''mouseleave'', ''handleMouseLeave'')]\<rparr>
               else e) els"

text \<open>The body of the styling effect of the live editor for one addressable element.
  The annotation store is not among the things it reads. The colours come from colour
  inputs, so the style assignments take effect as written.\<close>

definition styleRegion ::
  "GlobalTooltipSettings \<Rightarrow> editorMode \<Rightarrow> string option \<Rightarrow> element \<Rightarrow> element" where
  "styleRegion gs mode selected e =
    (let original =
           (case originalStroke e of
              Some s \<Rightarrow> s
            | None \<Rightarrow>
                if style_stroke e \<noteq> [] then style_stroke e
                else (case attr_stroke e of
                        Some a \<Rightarrow> if a \<noteq> [] then a else ''none''
                      | None \<Rightarrow> ''none''));
         isSelected = (mode = Edit \<and> selected = Some (el_id e))
     in e\<lparr>originalStroke := Some original,
          style_fill := defaultRegionColor gs,
          listeners := listeners e @
            [(''mouseenter'', ''applyHover''), (''mouseleave'', ''removeHover'')],
          style_stroke := (if isSelected then ''#3b82f6'' else original),
          style_strokeWidth := (if isSelected then ''2px'' else ''1''),
          style_cursor := ''pointer''\<rparr>)"

definition applyRegionStyles ::
  "GlobalTooltipSettings \<Rightarrow> editorMode \<Rightarrow> string option \<Rightarrow> element list \<Rightarrow> element list" where
  "applyRegionStyles gs mode selected els =
     map (\<lambda>e. if isClickable e then styleRegion gs mode selected e else e) els"

text \<open>
  The exported script holds the store as the object literal that \<open>JSON.stringify\<close>
  wrote. The snapshot is the store at export time, holding records only, as its declared
  type says. In an object literal the key \<open>__proto__\<close> does not define a property: it
  makes its value the prototype of the object. So \<open>customizationData[regionId]\<close> in the
  script is the own record of that name, or else a field of the record written under
  \<open>__proto__\<close>, or else a member of \<open>Object.prototype\<close>. \<open>fieldOf\<close> reads a field of a
  record by name (an undefined field is not written), and \<open>dataTruthy\<close> is the
  truthiness of what the script reads: an object is truthy, a string when it is not empty.
\<close>

definition fieldOf :: "RegionData \<Rightarrow> string \<Rightarrow> string option" where
  "fieldOf r name =
     (if name = ''title'' then Some (title r)
      else if name = ''description'' then Some (description r)
      else if name = ''link'' then Some (link r)
      else if name = ''tooltipImageSrc'' then tooltipImageSrc r
      else None)"

definition dataTruthy :: "(string \<rightharpoonup> RegionData) \<Rightarrow> string \<Rightarrow> bool" where
  "dataTruthy snapshot regionId =
     (if regionId \<noteq> ''__proto__'' \<and> snapshot regionId \<noteq> None then True
      else
        (case snapshot ''__proto__'' of
           None \<Rightarrow> inheritedMember regionId \<noteq> None
         | Some r \<Rightarrow>
             (case fieldOf r regionId of
                Some s \<Rightarrow> s \<noteq> []
              | None \<Rightarrow> inheritedMember regionId \<noteq> None)))"

text \<open>
  The exported script's treatment of one region once its id is settled: only a region
  for which \<open>customizationData[regionId]\<close> is truthy gets the class, the fill and the
  listeners.
\<close>

definition exportRegion ::
  "GlobalTooltipSettings \<Rightarrow> (string \<rightharpoonup> RegionData) \<Rightarrow> element \<Rightarrow> element" where
  "exportRegion gs snapshot e =
    (if dataTruthy snapshot (el_id e) then
       e\<lparr>classList :=
            (if ''map-region'' \<in> set (classList e) then classList e
             else classList e @ [''map-region'']),
         style_fill :=
            (if defaultRegionColor gs \<noteq> [] then defaultRegionColor gs else ''none''),
         listeners := listeners e @
            (if tooltipTrigger gs = Click then [(''click'', ''showClickTooltip'')]
             else [(''mousemove'', ''showHoverTooltip''), (''mouseleave'', ''hideTooltip''),
                   (''click'', ''openLink'')])
            @ [(''mouseenter'', ''hoverFill''), (''mouseleave'', ''restoreFill'')]\<rparr>
     else e)"

text \<open>The \<open>allRegions.forEach\<close> loop of the exported script: id assignment and the
  gated set-up, region by region. This is what the script does when it runs, in a page
  whose script element is intact.\<close>

fun exportRegions ::
  "nat \<Rightarrow> GlobalTooltipSettings \<Rightarrow> (string \<rightharpoonup> RegionData) \<Rightarrow> element list \<Rightarrow> element list" where
  "exportRegions idCounter gs snapshot [] = []"
| "exportRegions idCounter gs snapshot (e # es) =
     (if isClickable e then
        (if el_id e = []
         then exportRegion gs snapshot (e\<lparr>el_id := ''map-region-'' @ toStringRadix 10 idCounter\<rparr>)
                # exportRegions (Suc idCounter) gs snapshot es
         else exportRegion gs snapshot e # exportRegions idCounter gs snapshot es)
      else e # exportRegions idCounter gs snapshot es)"


section \<open>Escaping the SVG text for the exported script\<close>

text \<open>
  Matching under the \<open>i\<close> flag: \<open>startsWithAnyCase p s\<close> says that \<open>s\<close> starts with the
  pattern \<open>p\<close>, given as the list of its characters in lower and in upper case.
\<close>

fun startsWithAnyCase :: "(char \<times> char) list \<Rightarrow> string \<Rightarrow> bool" where
  "startsWithAnyCase [] s = True"
| "startsWithAnyCase (p # ps) [] = False"
| "startsWithAnyCase (p # ps) (c # cs) =
     (if c = fst p \<or> c = snd p then startsWithAnyCase ps cs else False)"

text \<open>\<open>replace(/\\/g, '\\\\')\<close>: every backslash is doubled.\<close>

definition escapeBackslashes :: "string \<Rightarrow> string" where
  "escapeBackslashes s = concat (map (\<lambda>c. if c = CHR 0x5C then [CHR 0x5C, CHR 0x5C] else [c]) s)"

text \<open>\<open>replace(/`/g, '\\`')\<close>: a backslash before every backtick.\<close>

definition escapeBackticks :: "string \<Rightarrow> string" where
  "escapeBackticks s = concat (map (\<lambda>c. if c = CHR 0x60 then [CHR 0x5C, CHR 0x60] else [c]) s)"

text \<open>\<open>replace(/\$\{/g, '\\${')\<close>: a backslash before every dollar sign that an opening
  brace follows.\<close>

fun escapeInterpolations :: "string \<Rightarrow> string" where
  "escapeInterpolations [] = []"
| "escapeInterpolations [c] = [c]"
| "escapeInterpolations (c # d # s) =
     (if c = CHR 0x24 \<and> d = CHR 0x7B
      then [CHR 0x5C, CHR 0x24, CHR 0x7B] @ escapeInterpolations s
      else c # escapeInterpolations (d # s))"

text \<open>\<open>replace(/<\/script>/gi, '<\\/script>')\<close>: the nine characters \<open></script>\<close>, in
  any case, are replaced by the lower-case text with a backslash before the slash.\<close>

fun escapeScriptClose :: "string \<Rightarrow> string" where
  "escapeScriptClose [] = []"
| "escapeScriptClose (c # cs) =
     (if startsWithAnyCase (zip ''</script>'' ''</SCRIPT>'') (c # cs)
      then [CHR 0x3C, CHR 0x5C] @ ''/script>'' @ escapeScriptClose (drop 8 cs)
      else c # escapeScriptClose cs)"

definition escapeSvgContent :: "string \<Rightarrow> string" where
  "escapeSvgContent svgContent =
     escapeScriptClose (escapeInterpolations (escapeBackticks (escapeBackslashes svgContent)))"

text \<open>
  The rule by which an HTML parser ends a \<open>script\<close> element whose text it is reading
  (script data state, no \<open><!--\<close> before): the characters \<open></script\<close>, in any case,
  followed by a tab, a line feed, a form feed, a space, a slash or \<open>>\<close> start the end
  tag. \<open>closesScriptElement s\<close> says that \<open>s\<close> holds such a place.
\<close>

fun closesScriptElement :: "string \<Rightarrow> bool" where
  "closesScriptElement [] = False"
| "closesScriptElement (c # cs) =
     (if startsWithAnyCase (zip ''</script'' ''</SCRIPT'') (c # cs)
         \<and> take 1 (drop 7 cs) \<in> set [[CHR 0x09], [CHR 0x0A], [CHR 0x0C], [CHR 0x20], ''/'', ''>'']
      then True
      else closesScriptElement cs)"


text \<open>
  The string value of a template literal with the given text between its backticks, for
  a literal without substitutions: a backslash before a backslash, a backtick, a dollar
  sign or a slash stands for that character, and a carriage return, with the line feed
  that may follow it, is read as one line feed. \<open>None\<close>: the text holds a backtick
  that ends the literal early, a \<open>${\<close> that opens a substitution, or an escape sequence
  of another kind.
\<close>

fun templateCooked :: "string \<Rightarrow> string option" where
  "templateCooked [] = Some []"
| "templateCooked [c] =
     (if c = CHR 0x5C \<or> c = CHR 0x60 then None
      else if c = CHR 0x0D then Some [CHR 0x0A] else Some [c])"
| "templateCooked (c # d # s) =
     (if c = CHR 0x5C then
        (if d \<in> set [CHR 0x5C, CHR 0x60, CHR 0x24, CHR 0x2F]
         then map_option (\<lambda>r. d # r) (templateCooked s) else None)
      else if c = CHR 0x60 then None
      else if c = CHR 0x24 \<and> d = CHR 0x7B then None
      else if c = CHR 0x0D \<and> d = CHR 0x0A then map_option (\<lambda>r. CHR 0x0A # r) (templateCooked s)
      else if c = CHR 0x0D then map_option (\<lambda>r. CHR 0x0A # r) (templateCooked (d # s))
      else map_option (\<lambda>r. c # r) (templateCooked (d # s)))"

text \<open>
  The SVG text as the exported script reads it back from the literal: every
  \<open></script>\<close>, in whatever case it was written, in lower case, and every line ending
  with a carriage return as a line feed.
\<close>

function decodedSvg :: "string \<Rightarrow> string" where
  "decodedSvg [] = []"
| "decodedSvg (c # cs) =
     (if startsWithAnyCase (zip ''</script>'' ''</SCRIPT>'') (c # cs)
      then ''</script>'' @ decodedSvg (drop 8 cs)
      else if c = CHR 0x0D
      then CHR 0x0A # decodedSvg (if take 1 cs = [CHR 0x0A] then drop 1 cs else cs)
      else c # decodedSvg cs)"
  by pat_completeness auto
termination
  by (relation "measure length") auto

text \<open>\<open>lowerCaseCloseTags s\<close>: every \<open></script>\<close> in \<open>s\<close> is written in lower
  case.\<close>

fun lowerCaseCloseTags :: "string \<Rightarrow> bool" where
  "lowerCaseCloseTags [] = True"
| "lowerCaseCloseTags (c # cs) =
     ((if startsWithAnyCase (zip ''</script>'' ''</SCRIPT>'') (c # cs)
       then take 9 (c # cs) = ''</script>'' else True)
      \<and> lowerCaseCloseTags cs)"

text \<open>
  The first three replacements as one pass over the text, and all four: devices of the
  proofs below, shown there to agree with the chain of replacements.
\<close>

definition isLiteralSpecial :: "char \<Rightarrow> bool" where
  "isLiteralSpecial c = (c = CHR 0x5C \<or> c = CHR 0x60 \<or> c = CHR 0x24)"

fun escapeForLiteral :: "string \<Rightarrow> string" where
  "escapeForLiteral [] = []"
| "escapeForLiteral (c # cs) =
     (if c = CHR 0x5C \<or> c = CHR 0x60 \<or> (c = CHR 0x24 \<and> take 1 cs = [CHR 0x7B])
      then [CHR 0x5C, c] else [c]) @ escapeForLiteral cs"

definition escapeOnePass :: "string \<Rightarrow> string" where
  "escapeOnePass s = escapeScriptClose (escapeForLiteral s)"


section \<open>Selecting a region\<close>











text \<open>The settings \<open>App\<close> starts with, and an editor whose only region has no
  record.\<close>

definition initialSettings :: GlobalTooltipSettings where
  "initialSettings =
     \<lparr>tooltipTrigger = Hover, tooltipBackgroundColor = ''#111827'',
      tooltipTextColor = ''#FFFFFF'', tooltipTitleFontSize = 16,
      tooltipDescriptionFontSize = 14, defaultRegionColor = ''#FBBF24'',
      defaultRegionHoverColor = adjustColorShade ''#FBBF24'' (- 10)\<rparr>"

definition unboundRegionEditor :: editor where
  "unboundRegionEditor =
     \<lparr>elements = [shape ''path'' ''map-region-0''],
      customizationData = Map.empty,
      selectedRegionId = None\<rparr>"


section \<open>Properties of the tooltip geometry\<close>

lemmas binary64_eval =
  roundToDouble_def binaryExponent_def bitLength.simps pow2_def roundHalfEven_def
  minus_jsnum_def times_jsnum_def divide_jsnum_def negative_def isZero_def isInfinite_def
  finiteValue_def Let_def

text \<open>
  C5, as amended. In click mode, when the viewBox width is positive, the live engine maps
  the region to container coordinates with \<open>scale = svgRect / viewBox\<close>, every operation
  in binary64. The top is \<open>regionTopY - tooltipHeight - 10\<close>, and \<open>regionBottomY + 10\<close>
  exactly when that preferred top, as computed, is negative. The left is the region's
  centre minus half the tooltip width; a left whose right edge exceeds the container
  width becomes \<open>containerWidth - tooltipWidth - 10\<close>; a negative left becomes 10,
  unless the tooltip pinned at 10 would itself pass the container's right edge
  (\<open>10 + tooltipWidth > containerWidth\<close>), in which case the second clamp applies to it
  too and the left is \<open>containerWidth - tooltipWidth - 10\<close>. When the viewBox width is
  not positive, nothing is computed and the initial \<open>(0, 0)\<close> is written.
\<close>

theorem click_placement:
  "positionTooltip Click active tooltipRect containerRect innerWidth innerHeight (Resolved t) =
     (if box_width (viewBox t) > Num 0 then
        (let scaleX = rect_width (svgRect t) / box_width (viewBox t);
             scaleY = rect_height (svgRect t) / box_height (viewBox t);
             centerX = (rect_left (svgRect t) - rect_left containerRect)
                         + (box_x (bbox t) + box_width (bbox t) / Num 2) * scaleX;
             topY = (rect_top (svgRect t) - rect_top containerRect) + box_y (bbox t) * scaleY;
             bottomY = (rect_top (svgRect t) - rect_top containerRect)
                         + (box_y (bbox t) + box_height (bbox t)) * scaleY;
             w = rect_width tooltipRect;
             cw = rect_width containerRect;
             preferredTop = topY - rect_height tooltipRect - Num 10;
             centered = centerX - w / Num 2
         in Inr (if centered < Num 0 then (if Num 10 + w > cw then cw - w - Num 10 else Num 10)
                 else if centered + w > cw then cw - w - Num 10 else centered,
                 if preferredTop < Num 0 then bottomY + Num 10 else preferredTop))
      else Inr (Num 0, Num 0))"
  by (simp add: positionTooltip_def Let_def)

text \<open>The example of the specification: a container 400 wide and a centred left of
  \<open>45 - 50 = -5\<close> give the left 10.\<close>

theorem click_placement_witness:
  "positionTooltip Click \<lparr>at_id = ''r'', at_event = None\<rparr>
     \<lparr>rect_left = Num 0, rect_top = Num 0, rect_width = Num 100, rect_height = Num 40\<rparr>
     \<lparr>rect_left = Num 0, rect_top = Num 0, rect_width = Num 400, rect_height = Num 300\<rparr>
     (Num 1000) (Num 800)
     (Resolved \<lparr>bbox = \<lparr>box_x = Num 20, box_y = Num 100, box_width = Num 50, box_height = Num 30\<rparr>,
            svgRect = \<lparr>rect_left = Num 0, rect_top = Num 0, rect_width = Num 400, rect_height = Num 300\<rparr>,
            viewBox = \<lparr>box_x = Num 0, box_y = Num 0, box_width = Num 400, box_height = Num 300\<rparr>\<rparr>)
   = Inr (Num 10, Num 50)"
  using click_placement [of "\<lparr>at_id = ''r'', at_event = None\<rparr>"
      "\<lparr>rect_left = Num 0, rect_top = Num 0, rect_width = Num 100, rect_height = Num 40\<rparr>"
      "\<lparr>rect_left = Num 0, rect_top = Num 0, rect_width = Num 400, rect_height = Num 300\<rparr>"
      "Num 1000" "Num 800"
      "\<lparr>bbox = \<lparr>box_x = Num 20, box_y = Num 100, box_width = Num 50, box_height = Num 30\<rparr>,
        svgRect = \<lparr>rect_left = Num 0, rect_top = Num 0, rect_width = Num 400, rect_height = Num 300\<rparr>,
        viewBox = \<lparr>box_x = Num 0, box_y = Num 0, box_width = Num 400, box_height = Num 300\<rparr>\<rparr>"]
  by (simp add: binary64_eval)

text \<open>
  C5 as stated fails: a negative left does not always become 10. Container 320 wide,
  tooltip 316 wide, region centred at 150: the centred left is \<open>150 - 158 = -8\<close>, the
  first clamp sets 10, the second sees \<open>10 + 316 > 320\<close> and sets \<open>320 - 316 - 10 = -6\<close>.
\<close>

theorem click_left_clamp_counterexample:
  "positionTooltip Click \<lparr>at_id = ''r'', at_event = None\<rparr>
     \<lparr>rect_left = Num 0, rect_top = Num 0, rect_width = Num 316, rect_height = Num 50\<rparr>
     \<lparr>rect_left = Num 0, rect_top = Num 0, rect_width = Num 320, rect_height = Num 240\<rparr>
     (Num 320) (Num 640)
     (Resolved \<lparr>bbox = \<lparr>box_x = Num 100, box_y = Num 100, box_width = Num 100, box_height = Num 40\<rparr>,
            svgRect = \<lparr>rect_left = Num 0, rect_top = Num 0, rect_width = Num 320, rect_height = Num 240\<rparr>,
            viewBox = \<lparr>box_x = Num 0, box_y = Num 0, box_width = Num 320, box_height = Num 240\<rparr>\<rparr>)
   = Inr (Num (- 6), Num 40)"
  by (simp add: positionTooltip_def binary64_eval)

text \<open>
  The preferred top is negative or not as binary64 computes it. A viewBox 1000 by 1000
  shown 700 by 700, a region at \<open>y = 90\<close>, 100 high, a tooltip 53 high: the scale is the
  binary64 value nearest to \<open>0.7\<close>, the region's top maps to \<open>62.99999999999999\<close>, the
  preferred top is a little below zero (\<open>-2^-47\<close>), and the tooltip goes below the
  region, at \<open>133 + 10 = 143\<close>. In exact arithmetic the preferred top would be 0 and would
  be kept.
\<close>

lemma click_top_rounding_example:
  "positionTooltip Click \<lparr>at_id = ''r'', at_event = None\<rparr>
     \<lparr>rect_left = Num 0, rect_top = Num 0, rect_width = Num 100, rect_height = Num 53\<rparr>
     \<lparr>rect_left = Num 0, rect_top = Num 0, rect_width = Num 700, rect_height = Num 700\<rparr>
     (Num 1000) (Num 800)
     (Resolved \<lparr>bbox = \<lparr>box_x = Num 100, box_y = Num 90, box_width = Num 100, box_height = Num 100\<rparr>,
            svgRect = \<lparr>rect_left = Num 0, rect_top = Num 0, rect_width = Num 700, rect_height = Num 700\<rparr>,
            viewBox = \<lparr>box_x = Num 0, box_y = Num 0, box_width = Num 1000, box_height = Num 1000\<rparr>\<rparr>)
   = Inr (Num 55, Num 143)"
  by (simp add: positionTooltip_def binary64_eval)


text \<open>
  C1 fails on the code. The same region in the same geometry (container and svg at the
  origin, 400 by 300, viewBox 400 by 300, region box 50 by 40 at (100, 100), tooltip 120
  by 60): in click mode the live engine puts the top at \<open>100 - 60 - 10 = 30\<close>, above the
  region's top edge, and the exported script at \<open>120 - 60 - 10 = 50\<close>, above the region's
  centre. In hover mode, pointer at (350, 100) in a window 1000 wide: the live engine
  tests the window's width and keeps the left \<open>365\<close>, the exported script tests the
  container's width and flips to \<open>350 - 120 - 15 = 215\<close>.
\<close>

theorem export_placement_differs:
  "positionTooltip Click \<lparr>at_id = ''r'', at_event = None\<rparr>
     \<lparr>rect_left = Num 0, rect_top = Num 0, rect_width = Num 120, rect_height = Num 60\<rparr>
     \<lparr>rect_left = Num 0, rect_top = Num 0, rect_width = Num 400, rect_height = Num 300\<rparr>
     (Num 1000) (Num 800)
     (Resolved \<lparr>bbox = \<lparr>box_x = Num 100, box_y = Num 100, box_width = Num 50, box_height = Num 40\<rparr>,
            svgRect = \<lparr>rect_left = Num 0, rect_top = Num 0, rect_width = Num 400, rect_height = Num 300\<rparr>,
            viewBox = \<lparr>box_x = Num 0, box_y = Num 0, box_width = Num 400, box_height = Num 300\<rparr>\<rparr>)
     = Inr (Num 65, Num 30)
   \<and> exportClickPlacement
       \<lparr>box_x = Num 100, box_y = Num 100, box_width = Num 50, box_height = Num 40\<rparr>
       \<lparr>rect_left = Num 0, rect_top = Num 0, rect_width = Num 400, rect_height = Num 300\<rparr>
       \<lparr>rect_left = Num 0, rect_top = Num 0, rect_width = Num 400, rect_height = Num 300\<rparr>
       \<lparr>box_x = Num 0, box_y = Num 0, box_width = Num 400, box_height = Num 300\<rparr>
       (Num 120) (Num 60)
     = (Num 65, Num 50)
   \<and> positionTooltip Hover
       \<lparr>at_id = ''r'', at_event = Some \<lparr>clientX = Num 350, clientY = Num 100\<rparr>\<rparr>
       \<lparr>rect_left = Num 0, rect_top = Num 0, rect_width = Num 120, rect_height = Num 60\<rparr>
       \<lparr>rect_left = Num 0, rect_top = Num 0, rect_width = Num 400, rect_height = Num 300\<rparr>
       (Num 1000) (Num 800) Missing
     = Inr (Num 365, Num 115)
   \<and> exportHoverPlacement (Num 350) (Num 100)
       \<lparr>rect_left = Num 0, rect_top = Num 0, rect_width = Num 400, rect_height = Num 300\<rparr>
       (Num 120) (Num 60)
     = (Num 215, Num 115)"
proof (intro conjI)
  show "positionTooltip Click \<lparr>at_id = ''r'', at_event = None\<rparr>
     \<lparr>rect_left = Num 0, rect_top = Num 0, rect_width = Num 120, rect_height = Num 60\<rparr>
     \<lparr>rect_left = Num 0, rect_top = Num 0, rect_width = Num 400, rect_height = Num 300\<rparr>
     (Num 1000) (Num 800)
     (Resolved \<lparr>bbox = \<lparr>box_x = Num 100, box_y = Num 100, box_width = Num 50, box_height = Num 40\<rparr>,
            svgRect = \<lparr>rect_left = Num 0, rect_top = Num 0, rect_width = Num 400, rect_height = Num 300\<rparr>,
            viewBox = \<lparr>box_x = Num 0, box_y = Num 0, box_width = Num 400, box_height = Num 300\<rparr>\<rparr>)
     = Inr (Num 65, Num 30)"
    by (simp add: positionTooltip_def binary64_eval)
  show "exportClickPlacement
       \<lparr>box_x = Num 100, box_y = Num 100, box_width = Num 50, box_height = Num 40\<rparr>
       \<lparr>rect_left = Num 0, rect_top = Num 0, rect_width = Num 400, rect_height = Num 300\<rparr>
       \<lparr>rect_left = Num 0, rect_top = Num 0, rect_width = Num 400, rect_height = Num 300\<rparr>
       \<lparr>box_x = Num 0, box_y = Num 0, box_width = Num 400, box_height = Num 300\<rparr>
       (Num 120) (Num 60)
     = (Num 65, Num 50)"
    by (simp add: exportClickPlacement_def binary64_eval)
  show "positionTooltip Hover
       \<lparr>at_id = ''r'', at_event = Some \<lparr>clientX = Num 350, clientY = Num 100\<rparr>\<rparr>
       \<lparr>rect_left = Num 0, rect_top = Num 0, rect_width = Num 120, rect_height = Num 60\<rparr>
       \<lparr>rect_left = Num 0, rect_top = Num 0, rect_width = Num 400, rect_height = Num 300\<rparr>
       (Num 1000) (Num 800) Missing
     = Inr (Num 365, Num 115)"
    by (simp add: positionTooltip_def binary64_eval)
  show "exportHoverPlacement (Num 350) (Num 100)
       \<lparr>rect_left = Num 0, rect_top = Num 0, rect_width = Num 400, rect_height = Num 300\<rparr>
       (Num 120) (Num 60)
     = (Num 215, Num 115)"
    by (simp add: exportHoverPlacement_def binary64_eval)
qed

text \<open>
  C8 fails on the exported script. For an SVG without a viewBox (\<open>viewBox.baseVal\<close> is
  all zero) the live engine skips the computation and writes the initial \<open>(0, 0)\<close>. The
  exported script has no such guard: the scale is \<open>400 / 0 = Infinity\<close>, the centred left
  is \<open>Infinity\<close>, the right-edge clamp turns it into \<open>400 - 120 - 10 = 270\<close>, and the top
  stays \<open>Infinity\<close>. Nothing throws, but a left is computed and written.
\<close>

theorem export_click_without_viewBox:
  "exportClickPlacement
       \<lparr>box_x = Num 100, box_y = Num 100, box_width = Num 50, box_height = Num 40\<rparr>
       \<lparr>rect_left = Num 0, rect_top = Num 0, rect_width = Num 400, rect_height = Num 300\<rparr>
       \<lparr>rect_left = Num 0, rect_top = Num 0, rect_width = Num 400, rect_height = Num 300\<rparr>
       \<lparr>box_x = Num 0, box_y = Num 0, box_width = Num 0, box_height = Num 0\<rparr>
       (Num 120) (Num 60)
     = (Num 270, PosInf)
   \<and> positionTooltip Click \<lparr>at_id = ''r'', at_event = None\<rparr>
     \<lparr>rect_left = Num 0, rect_top = Num 0, rect_width = Num 120, rect_height = Num 60\<rparr>
     \<lparr>rect_left = Num 0, rect_top = Num 0, rect_width = Num 400, rect_height = Num 300\<rparr>
     (Num 1000) (Num 800)
     (Resolved \<lparr>bbox = \<lparr>box_x = Num 100, box_y = Num 100, box_width = Num 50, box_height = Num 40\<rparr>,
            svgRect = \<lparr>rect_left = Num 0, rect_top = Num 0, rect_width = Num 400, rect_height = Num 300\<rparr>,
            viewBox = \<lparr>box_x = Num 0, box_y = Num 0, box_width = Num 0, box_height = Num 0\<rparr>\<rparr>)
     = Inr (Num 0, Num 0)"
proof (intro conjI)
  show "exportClickPlacement
       \<lparr>box_x = Num 100, box_y = Num 100, box_width = Num 50, box_height = Num 40\<rparr>
       \<lparr>rect_left = Num 0, rect_top = Num 0, rect_width = Num 400, rect_height = Num 300\<rparr>
       \<lparr>rect_left = Num 0, rect_top = Num 0, rect_width = Num 400, rect_height = Num 300\<rparr>
       \<lparr>box_x = Num 0, box_y = Num 0, box_width = Num 0, box_height = Num 0\<rparr>
       (Num 120) (Num 60)
     = (Num 270, PosInf)"
    by (simp add: exportClickPlacement_def binary64_eval)
  show "positionTooltip Click \<lparr>at_id = ''r'', at_event = None\<rparr>
     \<lparr>rect_left = Num 0, rect_top = Num 0, rect_width = Num 120, rect_height = Num 60\<rparr>
     \<lparr>rect_left = Num 0, rect_top = Num 0, rect_width = Num 400, rect_height = Num 300\<rparr>
     (Num 1000) (Num 800)
     (Resolved \<lparr>bbox = \<lparr>box_x = Num 100, box_y = Num 100, box_width = Num 50, box_height = Num 40\<rparr>,
            svgRect = \<lparr>rect_left = Num 0, rect_top = Num 0, rect_width = Num 400, rect_height = Num 300\<rparr>,
            viewBox = \<lparr>box_x = Num 0, box_y = Num 0, box_width = Num 0, box_height = Num 0\<rparr>\<rparr>)
     = Inr (Num 0, Num 0)"
    by (simp add: positionTooltip_def)
qed

text \<open>
  The guard of the live engine, in general: whenever the test \<open>viewBox.width > 0\<close> is
  false (the width is zero, negative or \<open>NaN\<close>), the click branch computes nothing,
  nothing is thrown, and the initial \<open>(0, 0)\<close> is written.
\<close>

theorem live_click_guard:
  "\<not> box_width (viewBox t) > Num 0 \<Longrightarrow>
     positionTooltip Click active tooltipRect containerRect innerWidth innerHeight (Resolved t)
       = Inr (Num 0, Num 0)"
  by (simp add: positionTooltip_def)

theorem live_click_guard_witness:
  "\<not> box_width (viewBox
        \<lparr>bbox = \<lparr>box_x = Num 100, box_y = Num 100, box_width = Num 50, box_height = Num 40\<rparr>,
         svgRect = \<lparr>rect_left = Num 0, rect_top = Num 0, rect_width = Num 400, rect_height = Num 300\<rparr>,
         viewBox = \<lparr>box_x = Num 0, box_y = Num 0, box_width = Num (- 5), box_height = Num 0\<rparr>\<rparr>)
      > Num 0
   \<and> positionTooltip Click \<lparr>at_id = ''r'', at_event = None\<rparr>
     \<lparr>rect_left = Num 0, rect_top = Num 0, rect_width = Num 120, rect_height = Num 60\<rparr>
     \<lparr>rect_left = Num 0, rect_top = Num 0, rect_width = Num 400, rect_height = Num 300\<rparr>
     (Num 1000) (Num 800)
     (Resolved
        \<lparr>bbox = \<lparr>box_x = Num 100, box_y = Num 100, box_width = Num 50, box_height = Num 40\<rparr>,
         svgRect = \<lparr>rect_left = Num 0, rect_top = Num 0, rect_width = Num 400, rect_height = Num 300\<rparr>,
         viewBox = \<lparr>box_x = Num 0, box_y = Num 0, box_width = Num (- 5), box_height = Num 0\<rparr>\<rparr>)
     = Inr (Num 0, Num 0)"
proof -
  let ?t = "\<lparr>bbox = \<lparr>box_x = Num 100, box_y = Num 100, box_width = Num 50, box_height = Num 40\<rparr>,
         svgRect = \<lparr>rect_left = Num 0, rect_top = Num 0, rect_width = Num 400, rect_height = Num 300\<rparr>,
         viewBox = \<lparr>box_x = Num 0, box_y = Num 0, box_width = Num (- 5), box_height = Num 0\<rparr>\<rparr>"
  have g: "\<not> box_width (viewBox ?t) > Num 0" by (simp add: finiteValue_def)
  show ?thesis
    using g live_click_guard [OF g] by simp
qed

text \<open>
  Hover placement of the live engine: the tooltip is anchored at the pointer plus 15 in
  viewport coordinates, flipped to \<open>pointer - size - 15\<close> on an axis where it would pass
  the window's edge, and then made relative to the container. With a window 800 wide, a
  tooltip 200 wide and the pointer at 750 the left is \<open>750 - 200 - 15 = 535\<close>.
\<close>

theorem hover_placement:
  "positionTooltip Hover \<lparr>at_id = rid, at_event = Some ev\<rparr> tooltipRect containerRect
     innerWidth innerHeight target
   = Inr ((if clientX ev + Num 15 + rect_width tooltipRect > innerWidth
           then clientX ev - rect_width tooltipRect - Num 15 else clientX ev + Num 15)
            - rect_left containerRect,
          (if clientY ev + Num 15 + rect_height tooltipRect > innerHeight
           then clientY ev - rect_height tooltipRect - Num 15 else clientY ev + Num 15)
            - rect_top containerRect)"
  by (simp add: positionTooltip_def Let_def)

lemma hover_flip_example:
  "positionTooltip Hover
     \<lparr>at_id = ''r'', at_event = Some \<lparr>clientX = Num 750, clientY = Num 100\<rparr>\<rparr>
     \<lparr>rect_left = Num 0, rect_top = Num 0, rect_width = Num 200, rect_height = Num 50\<rparr>
     \<lparr>rect_left = Num 0, rect_top = Num 0, rect_width = Num 600, rect_height = Num 400\<rparr>
     (Num 800) (Num 600) Missing
   = Inr (Num 535, Num 115)"
  by (simp add: positionTooltip_def binary64_eval)

text \<open>
  What the two implementations do share in click mode: whenever the viewBox width is
  positive, the left of the exported script is the left of the live engine, rounding
  included.
\<close>

theorem click_left_agrees:
  assumes "box_width vb > Num 0"
  shows "\<exists>liveTop. positionTooltip Click active tooltipRect containerRect innerWidth innerHeight
           (Resolved \<lparr>bbox = bb, svgRect = sr, viewBox = vb\<rparr>)
         = Inr (fst (exportClickPlacement bb sr containerRect vb
                       (rect_width tooltipRect) (rect_height tooltipRect)), liveTop)"
  using assms by (simp add: positionTooltip_def exportClickPlacement_def Let_def)

theorem click_left_agrees_witness:
  "box_width \<lparr>box_x = Num 0, box_y = Num 0, box_width = Num 400, box_height = Num 300\<rparr> > Num 0
   \<and> (\<exists>liveTop. positionTooltip Click \<lparr>at_id = ''r'', at_event = None\<rparr>
         \<lparr>rect_left = Num 0, rect_top = Num 0, rect_width = Num 120, rect_height = Num 60\<rparr>
         \<lparr>rect_left = Num 0, rect_top = Num 0, rect_width = Num 400, rect_height = Num 300\<rparr>
         (Num 1000) (Num 800)
         (Resolved
            \<lparr>bbox = \<lparr>box_x = Num 100, box_y = Num 100, box_width = Num 50, box_height = Num 40\<rparr>,
             svgRect = \<lparr>rect_left = Num 0, rect_top = Num 0, rect_width = Num 400, rect_height = Num 300\<rparr>,
             viewBox = \<lparr>box_x = Num 0, box_y = Num 0, box_width = Num 400, box_height = Num 300\<rparr>\<rparr>)
       = Inr (fst (exportClickPlacement
                \<lparr>box_x = Num 100, box_y = Num 100, box_width = Num 50, box_height = Num 40\<rparr>
                \<lparr>rect_left = Num 0, rect_top = Num 0, rect_width = Num 400, rect_height = Num 300\<rparr>
                \<lparr>rect_left = Num 0, rect_top = Num 0, rect_width = Num 400, rect_height = Num 300\<rparr>
                \<lparr>box_x = Num 0, box_y = Num 0, box_width = Num 400, box_height = Num 300\<rparr>
                (Num 120) (Num 60)), liveTop))"
proof -
  let ?vb = "\<lparr>box_x = Num 0, box_y = Num 0, box_width = Num 400, box_height = Num 300\<rparr>"
  have p: "box_width ?vb > Num 0" by (simp add: finiteValue_def)
  show ?thesis
    using p click_left_agrees [OF p, of "\<lparr>at_id = ''r'', at_event = None\<rparr>"
        "\<lparr>rect_left = Num 0, rect_top = Num 0, rect_width = Num 120, rect_height = Num 60\<rparr>"
        "\<lparr>rect_left = Num 0, rect_top = Num 0, rect_width = Num 400, rect_height = Num 300\<rparr>"
        "Num 1000" "Num 800"
        "\<lparr>box_x = Num 100, box_y = Num 100, box_width = Num 50, box_height = Num 40\<rparr>"
        "\<lparr>rect_left = Num 0, rect_top = Num 0, rect_width = Num 400, rect_height = Num 300\<rparr>"]
    by simp
qed


section \<open>Properties of the colour shade\<close>

lemma hexDigitValue_less: "hexDigitValue d = Some v \<Longrightarrow> v < 16"
  by (auto simp: hexDigitValue_def Let_def split: if_splits)

lemma hexDigit_not_space: "hexDigitValue d = Some v \<Longrightarrow> \<not> isWhiteSpace d"
  by (auto simp: hexDigitValue_def isWhiteSpace_def Let_def)

lemma hexDigit_not_prefix:
  "hexDigitValue d = Some v \<Longrightarrow>
     d \<noteq> CHR 0x2D \<and> d \<noteq> CHR 0x2B \<and> d \<noteq> CHR 0x78 \<and> d \<noteq> CHR 0x58 \<and> d \<noteq> CHR 0x23"
  by (auto simp: hexDigitValue_def Let_def)

lemma parseInt16_six:
  assumes "hexDigitValue d1 = Some v1" "hexDigitValue d2 = Some v2" "hexDigitValue d3 = Some v3"
    "hexDigitValue d4 = Some v4" "hexDigitValue d5 = Some v5" "hexDigitValue d6 = Some v6"
  shows "parseInt16 [d1, d2, d3, d4, d5, d6] =
           Some (int (65536 * (16 * v1 + v2) + 256 * (16 * v3 + v4) + (16 * v5 + v6)))"
  using assms hexDigit_not_space[OF assms(1)] hexDigit_not_prefix[OF assms(1)]
    hexDigit_not_prefix[OF assms(2)]
  by (simp add: parseInt16_def Let_def)

lemma toInt32_small: "0 \<le> n \<Longrightarrow> n < 2 ^ 31 \<Longrightarrow> toInt32 (Some n) = n"
  by (simp add: toInt32_def)

text \<open>\<open>Math.round(-25.5)\<close> is \<open>-25\<close>: the tie goes up.\<close>

lemma mathRound_tie: "mathRound (- (51 / 2)) = - 25"
  by (simp add: mathRound_def)

text \<open>The binary64 product \<open>2.55 * (-10)\<close> is exactly \<open>-25.5\<close>: the literal is a little
  below \<open>2.55\<close>, and the product, half way between two binary64 values, rounds to the
  even one.\<close>

lemma product_darken: "roundToDouble (255 / 100) * Num (- 10) = Num (- (51 / 2))"
  by (simp add: roundToDouble_def binaryExponent_def bitLength.simps pow2_def
        roundHalfEven_def times_jsnum_def negative_def isZero_def isInfinite_def
        finiteValue_def Let_def)

lemma split_channels:
  fixes a b c :: int
  assumes "0 \<le> a" "0 \<le> b" "b < 256" "0 \<le> c" "c < 256"
  shows "(65536 * a + 256 * b + c) div 65536 = a"
    and "((65536 * a + 256 * b + c) div 256) mod 256 = b"
    and "(65536 * a + 256 * b + c) mod 256 = c"
proof -
  have dv: "(256 * k + c) div 256 = k" for k
    using assms by (simp add: div_pos_pos_trivial)
  have md: "(256 * k + c) mod 256 = c" for k
    using assms by (simp add: mod_pos_pos_trivial)
  have e: "65536 * a + 256 * b + c = 256 * (256 * a + b) + c"
    by (simp add: algebra_simps)
  have bc: "0 \<le> 256 * b + c" "256 * b + c < 65536" using assms by auto
  have "(65536 * a + (256 * b + c)) div 65536 = a"
    using bc by (simp add: div_pos_pos_trivial)
  then show "(65536 * a + 256 * b + c) div 65536 = a" by (simp add: add.assoc)
  show "((65536 * a + 256 * b + c) div 256) mod 256 = b"
    unfolding e dv using assms by (simp add: mod_pos_pos_trivial)
  show "(65536 * a + 256 * b + c) mod 256 = c"
    unfolding e by (rule md)
qed

lemma padded_hex_length:
  "n < 256 \<Longrightarrow> length (padStart 2 (CHR 0x30) (toStringRadix 16 n)) = 2"
  by (subst toStringRadix.simps, subst toStringRadix.simps) (auto simp: padStart_def)

lemma shade_six:
  assumes "hexDigitValue d1 = Some v1" "hexDigitValue d2 = Some v2" "hexDigitValue d3 = Some v3"
    "hexDigitValue d4 = Some v4" "hexDigitValue d5 = Some v5" "hexDigitValue d6 = Some v6"
  shows "adjustColorShade (CHR 0x23 # [d1, d2, d3, d4, d5, d6]) (- 10) =
           rgbString (max 0 (min 255 (int (16 * v1 + v2) - 25)))
                     (max 0 (min 255 (int (16 * v3 + v4) - 25)))
                     (max 0 (min 255 (int (16 * v5 + v6) - 25)))"
proof -
  define a b c where "a = int (16 * v1 + v2)" and "b = int (16 * v3 + v4)"
    and "c = int (16 * v5 + v6)"
  have v: "v1 < 16" "v2 < 16" "v3 < 16" "v4 < 16" "v5 < 16" "v6 < 16"
    using assms by (auto dest: hexDigitValue_less)
  have rng: "0 \<le> a" "a < 256" "0 \<le> b" "b < 256" "0 \<le> c" "c < 256"
    using v by (auto simp: a_def b_def c_def)
  have p: "parseInt16 [d1, d2, d3, d4, d5, d6] = Some (65536 * a + 256 * b + c)"
    using parseInt16_six[OF assms] by (simp add: a_def b_def c_def)
  have t: "toInt32 (Some (65536 * a + 256 * b + c)) = 65536 * a + 256 * b + c"
    using rng by (intro toInt32_small) auto
  have pd: "roundToDouble (51 / 20) * Num (- 10) = Num (- (51 / 2))"
    using product_darken by simp
  have ch: "(65536 * a + 256 * b + c) div 65536 = a"
    "(65536 * a + 256 * b + c) div 256 mod 256 = b"
    "(65536 * a + 256 * b + c) mod 256 = c"
    using split_channels[of a b c] rng by simp_all
  have "adjustColorShade (CHR 0x23 # [d1, d2, d3, d4, d5, d6]) (- 10) =
     rgbString (max 0 (min 255 (a - 25))) (max 0 (min 255 (b - 25))) (max 0 (min 255 (c - 25)))"
    unfolding adjustColorShade_def Let_def
    by (simp add: p t ch pd finiteValue_def mathRound_tie)
  then show ?thesis by (simp only: a_def b_def c_def)
qed

lemma shade_without_hash:
  assumes "hexDigitValue d1 = Some v1"
  shows "adjustColorShade (d1 # ds) p = adjustColorShade (CHR 0x23 # d1 # ds) p"
  using hexDigit_not_prefix[OF assms] by (simp add: adjustColorShade_def)

lemma shade_shorthand:
  "adjustColorShade (CHR 0x23 # [e1, e2, e3]) p =
   adjustColorShade (CHR 0x23 # [e1, e1, e2, e2, e3, e3]) p"
  by (simp add: adjustColorShade_def)

lemma shade_length: "length (adjustColorShade hex p) = 7"
proof -
  have "length (rgbString r g b) = 7" if "r \<le> 255" "g \<le> 255" "b \<le> 255" for r g b :: int
  proof -
    have "nat r < 256" "nat g < 256" "nat b < 256" using that by auto
    then show ?thesis by (simp add: rgbString_def padded_hex_length)
  qed
  then show ?thesis
    unfolding adjustColorShade_def Let_def by simp
qed

lemma rgbString_226_166_11: "rgbString 226 166 11 = ''#e2a60b''"
  by (simp add: rgbString_def padStart_def toStringRadix.simps digitChar_def)

lemma rgbString_223_165_13: "rgbString 223 165 13 = ''#dfa50d''"
  by (simp add: rgbString_def padStart_def toStringRadix.simps digitChar_def)

text \<open>At \<open>percent = 50\<close> the rounding of the product shows: \<open>2.55 * 50\<close> is
  \<open>127.49999999999999\<close> in binary64, which \<open>Math.round\<close> takes to 127, so black
  becomes \<open>#7f7f7f\<close>, not \<open>#808080\<close>.\<close>

lemma shade_product_rounding_example: "adjustColorShade ''#000000'' 50 = ''#7f7f7f''"
proof -
  have p: "parseInt16 ''000000'' = Some 0"
    by (simp add: parseInt16_def hexDigitValue_def isWhiteSpace_def Let_def)
  have pr: "roundToDouble (51 / 20) * Num 50 = Num (8972014882652159 / 2 ^ 46)"
    by (simp add: roundToDouble_def binaryExponent_def bitLength.simps pow2_def
          roundHalfEven_def times_jsnum_def negative_def isZero_def isInfinite_def
          finiteValue_def Let_def)
  have r: "mathRound (8972014882652159 / 2 ^ 46) = 127"
    by (simp add: mathRound_def)
  have s: "rgbString 127 127 127 = ''#7f7f7f''"
    by (simp add: rgbString_def padStart_def toStringRadix.simps digitChar_def)
  have "adjustColorShade ''#000000'' 50 = rgbString 127 127 127"
    unfolding adjustColorShade_def Let_def
    using r by (simp add: p pr toInt32_def finiteValue_def)
  then show ?thesis by (simp only: s)
qed

lemma shade_FBBF24: "adjustColorShade ''#FBBF24'' (- 10) = ''#e2a60b''"
  using shade_six [of "CHR ''F''" 15 "CHR ''B''" 11 "CHR ''B''" 11 "CHR ''F''" 15
      "CHR ''2''" 2 "CHR ''4''" 4] rgbString_226_166_11
  by (simp add: hexDigitValue_def)

text \<open>
  C6, as amended. The colour-shade derivation, applied with \<open>percent = -10\<close> to a 6-digit
  hexadecimal colour (with or without the hash sign), shifts each 8-bit channel by
  \<open>Math.round(2.55 * (-10)) = Math.round(-25.5) = -25\<close> (JavaScript rounds a tie
  towards plus infinity), clamps each channel independently to \<open>[0, 255]\<close> and
  re-encodes it as a hash sign and six hexadecimal digits; a 3-digit colour is expanded
  by doubling each digit first, and the result always has seven characters.
\<close>

theorem shade_darken:
  assumes "hexDigitValue d1 = Some v1" "hexDigitValue d2 = Some v2" "hexDigitValue d3 = Some v3"
    "hexDigitValue d4 = Some v4" "hexDigitValue d5 = Some v5" "hexDigitValue d6 = Some v6"
  shows "adjustColorShade (CHR 0x23 # [d1, d2, d3, d4, d5, d6]) (- 10) =
           rgbString (max 0 (min 255 (int (16 * v1 + v2) - 25)))
                     (max 0 (min 255 (int (16 * v3 + v4) - 25)))
                     (max 0 (min 255 (int (16 * v5 + v6) - 25)))
       \<and> adjustColorShade [d1, d2, d3, d4, d5, d6] (- 10) =
           adjustColorShade (CHR 0x23 # [d1, d2, d3, d4, d5, d6]) (- 10)
       \<and> adjustColorShade (CHR 0x23 # [d1, d3, d5]) (- 10) =
           adjustColorShade (CHR 0x23 # [d1, d1, d3, d3, d5, d5]) (- 10)
       \<and> adjustColorShade [d1, d3, d5] (- 10) =
           adjustColorShade (CHR 0x23 # [d1, d1, d3, d3, d5, d5]) (- 10)
       \<and> length (adjustColorShade (CHR 0x23 # [d1, d2, d3, d4, d5, d6]) (- 10)) = 7"
proof (intro conjI)
  show "adjustColorShade (CHR 0x23 # [d1, d2, d3, d4, d5, d6]) (- 10) =
           rgbString (max 0 (min 255 (int (16 * v1 + v2) - 25)))
                     (max 0 (min 255 (int (16 * v3 + v4) - 25)))
                     (max 0 (min 255 (int (16 * v5 + v6) - 25)))"
    by (rule shade_six[OF assms])
  show "adjustColorShade [d1, d2, d3, d4, d5, d6] (- 10) =
           adjustColorShade (CHR 0x23 # [d1, d2, d3, d4, d5, d6]) (- 10)"
    by (rule shade_without_hash[OF assms(1)])
  show "adjustColorShade (CHR 0x23 # [d1, d3, d5]) (- 10) =
           adjustColorShade (CHR 0x23 # [d1, d1, d3, d3, d5, d5]) (- 10)"
    by (rule shade_shorthand)
  then show "adjustColorShade [d1, d3, d5] (- 10) =
           adjustColorShade (CHR 0x23 # [d1, d1, d3, d3, d5, d5]) (- 10)"
    by (simp only: shade_without_hash[OF assms(1)])
  show "length (adjustColorShade (CHR 0x23 # [d1, d2, d3, d4, d5, d6]) (- 10)) = 7"
    by (rule shade_length)
qed

text \<open>The default region colour of the application: \<open>#FBBF24\<close> darkens to
  \<open>(0xFB - 25, 0xBF - 25, 0x24 - 25) = (226, 166, 11)\<close>, the string \<open>#e2a60b\<close>.\<close>

theorem shade_darken_witness:
  "hexDigitValue CHR ''F'' = Some 15 \<and> hexDigitValue CHR ''B'' = Some 11 \<and>
   hexDigitValue CHR ''2'' = Some 2 \<and> hexDigitValue CHR ''4'' = Some 4 \<and>
   adjustColorShade ''#FBBF24'' (- 10) = rgbString 226 166 11 \<and>
   adjustColorShade ''FBBF24'' (- 10) = adjustColorShade ''#FBBF24'' (- 10) \<and>
   adjustColorShade ''#FB2'' (- 10) = adjustColorShade ''#FFBB22'' (- 10)"
  using shade_darken [of "CHR ''F''" 15 "CHR ''B''" 11 "CHR ''B''" 11 "CHR ''F''" 15
      "CHR ''2''" 2 "CHR ''4''" 4]
  by (simp add: hexDigitValue_def)

text \<open>
  C6 as stated fails: the shade of \<open>#FBBF24\<close> is not the encoding of \<open>(223, 165, 13)\<close>.
  The code yields \<open>#e2a60b\<close>, the channels \<open>(226, 166, 11)\<close>; \<open>(223, 165, 13)\<close> would
  be \<open>#dfa50d\<close>.
\<close>

theorem shade_round_counterexample:
  "adjustColorShade ''#FBBF24'' (- 10) = ''#e2a60b'' \<and>
   adjustColorShade ''#FBBF24'' (- 10) \<noteq> rgbString 223 165 13"
  by (simp add: shade_FBBF24 rgbString_223_165_13)


section \<open>Properties of the rename\<close>

lemmas browser_eval =
  handleRegionIdChange_def trim_def isWhiteSpace_def applyIdChange_def escapeSelectorId_def
  selectorSpecials_def idSelectorBrowser_def startsIdentifier_def isNameStart_def
  isNameChar_def isValidEscape_def hexDigitValue_def shape_def record_titled_def
  twoRegionEditor_def numericIdEditor_def hasOwnPropertyCall_def getProperty_def
  inheritedMember_def returnValue_def Let_def

text \<open>While the store has no own property \<open>hasOwnProperty\<close>, the call reaches the
  function of \<open>Object.prototype\<close> and tells whether the key is an own property.\<close>

lemma hasOwnPropertyCall_inherited:
  "obj ''hasOwnProperty'' = None \<Longrightarrow> hasOwnPropertyCall obj key = Inr (obj key \<noteq> None)"
  by (simp add: hasOwnPropertyCall_def getProperty_def inheritedMember_def)

text \<open>
  Under that condition the rename always returns: it raises nothing, and the store's
  prototype is replaced only by a rename to \<open>__proto__\<close> of an identifier the store
  answers for.
\<close>

lemma rename_returns:
  assumes "customizationData st ''hasOwnProperty'' = None"
  shows "(\<exists>ok st'. handleRegionIdChange qs old new st = Returned ok st')
       \<or> (trim new = ''__proto__''
          \<and> (\<exists>st' v. handleRegionIdChange qs old new st = PrototypeReplaced st' v
                \<and> getProperty (customizationData st) old = Some v))"
  using assms
  by (auto simp: handleRegionIdChange_def Let_def
        hasOwnPropertyCall_inherited [of "customizationData st"] split: option.splits)

text \<open>Renaming \<open>a\<close> to \<open>__proto__\<close>: the call returns \<open>true\<close>, the node and the
  selection take the new identifier, the key \<open>a\<close> is gone, and the record of \<open>a\<close> has
  become the prototype of the store instead of a property of it.\<close>

lemma rename_to_proto_example:
  "handleRegionIdChange idSelectorBrowser ''a'' ''__proto__'' twoRegionEditor =
     PrototypeReplaced
      \<lparr>elements = [shape ''path'' ''__proto__'', shape ''path'' ''b''],
       customizationData = [''b'' \<mapsto> Record (record_titled ''B'')],
       selectedRegionId = Some ''__proto__''\<rparr>
      (Record (record_titled ''A''))"
  by (auto simp add: browser_eval)

text \<open>
  When a member of \<open>Object.prototype\<close> other than \<open>hasOwnProperty\<close> has been copied
  into the store under the key \<open>hasOwnProperty\<close>, the collision check asks that
  function. \<open>isPrototypeOf\<close> answers \<open>false\<close> for every identifier: a rename to \<open>b\<close>,
  which has a record, is accepted, and here, where \<open>a\<close> has none, \<open>b\<close> keeps its own.
\<close>

lemma rename_shadowed_check_example:
  "handleRegionIdChange idSelectorBrowser ''a'' ''b''
     \<lparr>elements = [shape ''path'' ''a'', shape ''path'' ''b''],
      customizationData =
        [''hasOwnProperty'' \<mapsto> Builtin IsPrototypeOf, ''b'' \<mapsto> Record (record_titled ''B'')],
      selectedRegionId = Some ''a''\<rparr>
   = Returned True
      \<lparr>elements = [shape ''path'' ''b'', shape ''path'' ''b''],
       customizationData =
         [''hasOwnProperty'' \<mapsto> Builtin IsPrototypeOf, ''b'' \<mapsto> Record (record_titled ''B'')],
       selectedRegionId = Some ''b''\<rparr>"
  by (auto simp add: browser_eval)




text \<open>
  C3, as amended. \<open>renameRegion(oldId, newId)\<close> first trims \<open>newId\<close>. For a store
  without a key \<open>hasOwnProperty\<close> it always returns, and it returns failure if and only
  if the trimmed \<open>newId\<close> differs from \<open>oldId\<close> and is empty, contains white space, or
  is already a key of the store; so white space around \<open>newId\<close> is removed, not
  rejected, and renaming an id to itself succeeds whatever the id is. On every failure
  the document, the Annotation Store and the selected-region reference are all left
  unchanged.
\<close>

theorem rename_failure_iff:
  assumes "customizationData st ''hasOwnProperty'' = None"
  shows "returnValue (handleRegionIdChange qs old new st) =
           Some (\<not> (trim new \<noteq> old \<and>
                     (trim new = [] \<or> (\<exists>c \<in> set (trim new). isWhiteSpace c)
                       \<or> customizationData st (trim new) \<noteq> None)))
       \<and> (returnValue (handleRegionIdChange qs old new st) = Some False \<longrightarrow>
            handleRegionIdChange qs old new st = Returned False st)"
  by (auto simp: handleRegionIdChange_def Let_def returnValue_def
        hasOwnPropertyCall_inherited [of "customizationData st", OF assms] split: option.splits)

text \<open>Renaming \<open>a\<close> to \<open>b\<close>, which has a record of its own, fails and changes
  nothing.\<close>

theorem rename_failure_iff_witness:
  "customizationData twoRegionEditor ''hasOwnProperty'' = None
   \<and> trim ''b'' \<noteq> ''a''
   \<and> customizationData twoRegionEditor (trim ''b'') \<noteq> None
   \<and> returnValue (handleRegionIdChange idSelectorBrowser ''a'' ''b'' twoRegionEditor) = Some False
   \<and> handleRegionIdChange idSelectorBrowser ''a'' ''b'' twoRegionEditor
       = Returned False twoRegionEditor"
proof -
  have h: "customizationData twoRegionEditor ''hasOwnProperty'' = None"
    by (simp add: twoRegionEditor_def)
  have k: "trim ''b'' \<noteq> ''a''" "customizationData twoRegionEditor (trim ''b'') \<noteq> None"
    by (simp_all add: trim_def isWhiteSpace_def twoRegionEditor_def)
  show ?thesis
    using rename_failure_iff [OF h, of idSelectorBrowser "''a''" "''b''"] h k
    by simp
qed

text \<open>
  C3 as stated fails. A new id that contains white space can succeed: \<open>c\<close> followed by a
  space is trimmed to \<open>c\<close> and accepted, and the id \<open>a b\<close> renamed to itself is accepted
  before any check is made. And a rename can end without a result: once \<open>b\<close> has been
  renamed to \<open>hasOwnProperty\<close>, which is a valid new id, the store's own record of that
  name stands where the check expects the function, and the next rename raises a
  \<open>TypeError\<close>.
\<close>

theorem rename_whitespace_counterexample:
  "isWhiteSpace (last ''c '')
   \<and> returnValue (handleRegionIdChange idSelectorBrowser ''a'' ''c '' twoRegionEditor) = Some True
   \<and> isWhiteSpace (hd (tl ''a b''))
   \<and> returnValue (handleRegionIdChange idSelectorBrowser ''a b'' ''a b'' twoRegionEditor)
       = Some True
   \<and> handleRegionIdChange idSelectorBrowser ''b'' ''hasOwnProperty'' twoRegionEditor =
       Returned True
        \<lparr>elements = [shape ''path'' ''a'', shape ''path'' ''hasOwnProperty''],
         customizationData =
           [''a'' \<mapsto> Record (record_titled ''A''),
            ''hasOwnProperty'' \<mapsto> Record (record_titled ''B'')],
         selectedRegionId = Some ''hasOwnProperty''\<rparr>
   \<and> handleRegionIdChange idSelectorBrowser ''hasOwnProperty'' ''c''
        \<lparr>elements = [shape ''path'' ''a'', shape ''path'' ''hasOwnProperty''],
         customizationData =
           [''a'' \<mapsto> Record (record_titled ''A''),
            ''hasOwnProperty'' \<mapsto> Record (record_titled ''B'')],
         selectedRegionId = Some ''hasOwnProperty''\<rparr>
       = Raised TypeError"
  by (auto simp add: browser_eval)


section \<open>Properties of region indexing\<close>

lemma assignIds_length: "length (assignIds n els) = length els"
  by (induction els arbitrary: n) auto

lemma assignIds_nth:
  "i < length els \<Longrightarrow>
   assignIds n els ! i =
     (if isClickable (els ! i) \<and> el_id (els ! i) = []
      then (els ! i)\<lparr>el_id := ''map-region-'' @
             toStringRadix 10
               (n + length (filter (\<lambda>e. isClickable e \<and> el_id e = []) (take i els)))\<rparr>
      else els ! i)"
proof (induction els arbitrary: n i)
  case Nil
  then show ?case by simp
next
  case (Cons e es)
  show ?case
  proof (cases i)
    case 0
    then show ?thesis by simp
  next
    case (Suc j)
    with Cons.prems have j: "j < length es" by simp
    show ?thesis
      using Cons.IH[OF j] Suc by simp
  qed
qed

lemma exportRegion_id: "el_id (exportRegion gs snapshot e) = el_id e"
  by (simp add: exportRegion_def)

lemma exportRegions_ids:
  "map el_id (exportRegions n gs snapshot els) = map el_id (assignIds n els)"
  by (induction els arbitrary: n) (auto simp: exportRegion_id)

text \<open>
  C4. Region indexing visits the shapes of the kinds path, g, rect, circle, polygon and
  ellipse in document order. A shape without an identifier gets \<open>map-region-<n>\<close>,
  where \<open>n\<close> is the number of shapes without an identifier that precede it, so \<open>n\<close>
  starts at 0 and grows by one per assignment; a shape that has an identifier, and any
  element of another kind, is left exactly as it is and takes no counter value. The loop
  of the exported script assigns the same identifiers.
\<close>

theorem indexRegions_assigns:
  "length (indexRegions els) = length els
   \<and> (\<forall>i < length els.
        indexRegions els ! i =
          (if isClickable (els ! i) \<and> el_id (els ! i) = []
           then (els ! i)\<lparr>el_id := ''map-region-'' @
                  toStringRadix 10
                    (length (filter (\<lambda>e. isClickable e \<and> el_id e = []) (take i els)))\<rparr>
           else els ! i))
   \<and> map el_id (exportRegions 0 gs snapshot els) = map el_id (indexRegions els)"
  by (simp add: indexRegions_def assignIds_length assignIds_nth exportRegions_ids)

text \<open>A path and a rect without identifier around a group \<open>x\<close> and a text element:
  the path gets 0, the rect gets 1, the other two are untouched.\<close>

theorem indexRegions_assigns_witness:
  "(3::nat) < length [shape ''path'' [], shape ''g'' ''x'', shape ''text'' [], shape ''rect'' []]
   \<and> indexRegions [shape ''path'' [], shape ''g'' ''x'', shape ''text'' [], shape ''rect'' []]
       = [shape ''path'' ''map-region-0'', shape ''g'' ''x'', shape ''text'' [],
          shape ''rect'' ''map-region-1'']"
proof -
  let ?els = "[shape ''path'' [], shape ''g'' ''x'', shape ''text'' [], shape ''rect'' []]"
  note a = indexRegions_assigns [of ?els, THEN conjunct2, THEN conjunct1, rule_format]
  have l: "length (indexRegions ?els) = 4"
    using indexRegions_assigns [of ?els] by simp
  have "indexRegions ?els ! 0 = shape ''path'' ''map-region-0''"
    using a [of 0]
    by (simp add: isClickable_def CLICKABLE_ELEMENTS_def shape_def toStringRadix.simps
          digitChar_def)
  moreover have "indexRegions ?els ! 1 = shape ''g'' ''x''"
    using a [of 1] by (simp add: isClickable_def CLICKABLE_ELEMENTS_def shape_def)
  moreover have "indexRegions ?els ! 2 = shape ''text'' []"
    using a [of 2] by (simp add: isClickable_def CLICKABLE_ELEMENTS_def shape_def)
  moreover have "indexRegions ?els ! 3 = shape ''rect'' ''map-region-1''"
    using a [of 3]
    by (simp add: isClickable_def CLICKABLE_ELEMENTS_def shape_def toStringRadix.simps
          digitChar_def)
  ultimately have "indexRegions ?els =
      [shape ''path'' ''map-region-0'', shape ''g'' ''x'', shape ''text'' [],
       shape ''rect'' ''map-region-1'']"
    using l by (intro nth_equalityI) (auto simp: less_Suc_eq numeral_eq_Suc)
  then show ?thesis by simp
qed


text \<open>Indexing is idempotent: a second run finds no shape without an identifier and
  changes nothing.\<close>

theorem indexRegions_idempotent: "indexRegions (indexRegions els) = indexRegions els"
proof -
  have "assignIds m (assignIds n els) = assignIds n els" for m n
    by (induction els arbitrary: m n) (auto simp: isClickable_def)
  then show ?thesis by (simp add: indexRegions_def)
qed


section \<open>Properties of the interaction styling\<close>

lemma assignIds_other_nth:
  "i < length els \<Longrightarrow> \<not> isClickable (els ! i) \<Longrightarrow> assignIds n els ! i = els ! i"
  by (simp add: assignIds_nth)

lemma exportRegions_nth:
  "i < length els \<Longrightarrow>
   exportRegions n gs snapshot els ! i =
     (if isClickable (els ! i) then exportRegion gs snapshot (assignIds n els ! i)
      else els ! i)"
proof (induction els arbitrary: n i)
  case Nil
  then show ?case by simp
next
  case (Cons e es)
  then show ?case by (cases i) auto
qed

text \<open>What the exported script reads for an identifier is falsy when the snapshot has
  no such key, \<open>Object.prototype\<close> has no such member, and the record under
  \<open>__proto__\<close>, if there is one, has no such field or an empty one.\<close>

lemma dataTruthy_unbound:
  assumes "snapshot rid = None" and "inheritedMember rid = None"
    and "\<forall>r. snapshot ''__proto__'' = Some r \<longrightarrow> fieldOf r rid = None \<or> fieldOf r rid = Some []"
  shows "\<not> dataTruthy snapshot rid"
  using assms by (auto simp: dataTruthy_def split: option.splits)

lemma exportRegion_unbound: "\<not> dataTruthy snapshot (el_id e) \<Longrightarrow> exportRegion gs snapshot e = e"
  by (simp add: exportRegion_def)

text \<open>
  C7, as amended. In the exported artifact a region gets no interaction behaviour when
  its identifier has no record in the snapshot, is not the name of a member of
  \<open>Object.prototype\<close>, and is not the name of a non-empty field of a record stored
  under \<open>__proto__\<close>: apart from the identifier that indexing may assign, the element is
  left as it was (no class, no fill, no listener). The live editor does not consult the
  Annotation Store when it styles or attaches listeners: every addressable shape, with
  or without a record, gets the default region fill, the pointer cursor, the hover
  listeners and the click, mouse-move and mouse-leave listeners.
\<close>

theorem inert_without_record:
  "(\<forall>i < length els.
      snapshot (el_id (indexRegions els ! i)) = None
      \<and> inheritedMember (el_id (indexRegions els ! i)) = None
      \<and> (\<forall>r. snapshot ''__proto__'' = Some r \<longrightarrow>
             fieldOf r (el_id (indexRegions els ! i)) = None
           \<or> fieldOf r (el_id (indexRegions els ! i)) = Some [])
      \<longrightarrow> exportRegions 0 gs snapshot els ! i = indexRegions els ! i)
   \<and> (\<forall>i < length els.
        isClickable (els ! i) \<longrightarrow>
          style_fill (applyRegionStyles gs mode selected els ! i) = defaultRegionColor gs
        \<and> style_cursor (applyRegionStyles gs mode selected els ! i) = ''pointer''
        \<and> listeners (applyRegionStyles gs mode selected els ! i) =
            listeners (els ! i)
              @ [(''mouseenter'', ''applyHover''), (''mouseleave'', ''removeHover'')]
        \<and> listeners (attachEditorListeners els ! i) =
            listeners (els ! i)
              @ [(''click'', ''handleClick''), (''mousemove'', ''handleMouseMove''),
                 (''mouseleave'', ''handleMouseLeave'')])"
proof (intro conjI allI impI)
  fix i
  assume i: "i < length els"
    and h: "snapshot (el_id (indexRegions els ! i)) = None
      \<and> inheritedMember (el_id (indexRegions els ! i)) = None
      \<and> (\<forall>r. snapshot ''__proto__'' = Some r \<longrightarrow>
             fieldOf r (el_id (indexRegions els ! i)) = None
           \<or> fieldOf r (el_id (indexRegions els ! i)) = Some [])"
  have "\<not> dataTruthy snapshot (el_id (indexRegions els ! i))"
    using h by (intro dataTruthy_unbound) auto
  then show "exportRegions 0 gs snapshot els ! i = indexRegions els ! i"
    using i
    by (simp add: indexRegions_def exportRegions_nth assignIds_other_nth exportRegion_unbound)
qed (auto simp: applyRegionStyles_def attachEditorListeners_def styleRegion_def Let_def)

text \<open>A path without identifier next to a rect \<open>x\<close>, the snapshot holding a record
  for \<open>x\<close> only: the exported script leaves the path alone but for its new identifier,
  the live editor fills it.\<close>

theorem inert_without_record_witness:
  "(0::nat) < length [shape ''path'' [], shape ''rect'' ''x'']
   \<and> [''x'' \<mapsto> record_titled ''X'']
        (el_id (indexRegions [shape ''path'' [], shape ''rect'' ''x''] ! 0)) = None
   \<and> inheritedMember (el_id (indexRegions [shape ''path'' [], shape ''rect'' ''x''] ! 0)) = None
   \<and> [''x'' \<mapsto> record_titled ''X''] ''__proto__'' = None
   \<and> isClickable ([shape ''path'' [], shape ''rect'' ''x''] ! 0)
   \<and> exportRegions 0 initialSettings [''x'' \<mapsto> record_titled ''X'']
        [shape ''path'' [], shape ''rect'' ''x''] ! 0
       = shape ''path'' ''map-region-0''
   \<and> style_fill (applyRegionStyles initialSettings Edit None
        [shape ''path'' [], shape ''rect'' ''x''] ! 0)
       = ''#FBBF24''"
proof -
  let ?els = "[shape ''path'' [], shape ''rect'' ''x'']"
  let ?snap = "[''x'' \<mapsto> record_titled ''X'']"
  have i: "indexRegions ?els ! 0 = shape ''path'' ''map-region-0''"
    by (simp add: indexRegions_def isClickable_def CLICKABLE_ELEMENTS_def shape_def
          toStringRadix.simps digitChar_def)
  have c: "isClickable (?els ! 0)"
    by (simp add: isClickable_def CLICKABLE_ELEMENTS_def shape_def)
  have n: "?snap (el_id (indexRegions ?els ! 0)) = None"
    unfolding i by (simp add: shape_def)
  have m: "inheritedMember (el_id (indexRegions ?els ! 0)) = None"
    unfolding i by (simp add: shape_def inheritedMember_def)
  have q: "?snap ''__proto__'' = None"
    by simp
  note t = inert_without_record [of ?els ?snap initialSettings Edit None]
  have "exportRegions 0 initialSettings ?snap ?els ! 0 = indexRegions ?els ! 0"
    using t n m q by simp
  moreover have "style_fill (applyRegionStyles initialSettings Edit None ?els ! 0) =
      defaultRegionColor initialSettings"
    using t c by simp
  ultimately show ?thesis
    using c n m q unfolding i by (simp add: initialSettings_def)
qed

text \<open>
  C7 as stated fails. In the live editor the only region of this document has no record
  in the store, and yet its fill and cursor are set and the tooltip-triggering listeners
  are attached. In the exported script a region with the identifier \<open>constructor\<close> gets
  the class, the fill and the listeners from an empty snapshot, because the script reads
  the function the snapshot object inherits under that name; and so does a region with
  the identifier \<open>title\<close> when the snapshot holds a record titled \<open>T\<close> under the key
  \<open>__proto__\<close>, because that record is the prototype of the script's object.
\<close>

theorem live_styling_counterexample:
  "customizationData unboundRegionEditor ''map-region-0'' = None
   \<and> elements unboundRegionEditor = [shape ''path'' ''map-region-0'']
   \<and> style_fill (shape ''path'' ''map-region-0'') = []
   \<and> style_cursor (shape ''path'' ''map-region-0'') = []
   \<and> listeners (shape ''path'' ''map-region-0'') = []
   \<and> map style_fill (applyRegionStyles initialSettings Edit
        (selectedRegionId unboundRegionEditor) (elements unboundRegionEditor)) = [''#FBBF24'']
   \<and> map style_cursor (applyRegionStyles initialSettings Edit
        (selectedRegionId unboundRegionEditor) (elements unboundRegionEditor)) = [''pointer'']
   \<and> map listeners (attachEditorListeners (elements unboundRegionEditor)) =
        [[(''click'', ''handleClick''), (''mousemove'', ''handleMouseMove''),
          (''mouseleave'', ''handleMouseLeave'')]]
   \<and> exportRegions 0 initialSettings Map.empty [shape ''path'' ''constructor''] =
        [(shape ''path'' ''constructor'')
           \<lparr>classList := [''map-region''], style_fill := ''#FBBF24'',
            listeners := [(''mousemove'', ''showHoverTooltip''), (''mouseleave'', ''hideTooltip''),
                          (''click'', ''openLink''), (''mouseenter'', ''hoverFill''),
                          (''mouseleave'', ''restoreFill'')]\<rparr>]
   \<and> exportRegions 0 initialSettings [''__proto__'' \<mapsto> record_titled ''T'']
        [shape ''path'' ''title''] =
        [(shape ''path'' ''title'')
           \<lparr>classList := [''map-region''], style_fill := ''#FBBF24'',
            listeners := [(''mousemove'', ''showHoverTooltip''), (''mouseleave'', ''hideTooltip''),
                          (''click'', ''openLink''), (''mouseenter'', ''hoverFill''),
                          (''mouseleave'', ''restoreFill'')]\<rparr>]"
  by (simp add: unboundRegionEditor_def shape_def applyRegionStyles_def
        attachEditorListeners_def styleRegion_def isClickable_def CLICKABLE_ELEMENTS_def
        initialSettings_def exportRegion_def dataTruthy_def inheritedMember_def fieldOf_def
        record_titled_def Let_def)


section \<open>Properties of the escaping\<close>

text \<open>
  C9 fails on the code. An SVG may close its \<open>script\<close> element with \<open></script >\<close>, white
  space before the \<open>>\<close>, which XML allows. The regular expression matches \<open></script>\<close>
  only, so the text passes through the escaping unchanged and still holds a place where
  an HTML parser ends the embedding script element; the plain \<open></script>\<close> is
  neutralised. Nor is the text always reproduced exactly: \<open></SCRIPT>\<close> is replaced by the
  lower-case \<open><\/script>\<close>, which the template literal decodes to \<open></script>\<close>.
\<close>

theorem escape_misses_script_close:
  "escapeSvgContent ''<svg><script></script ></svg>'' = ''<svg><script></script ></svg>''
   \<and> closesScriptElement (escapeSvgContent ''<svg><script></script ></svg>'')
   \<and> \<not> closesScriptElement (escapeSvgContent ''<svg><script></script></svg>'')
   \<and> escapeSvgContent ''<svg></SCRIPT></svg>'' = ''<svg><'' @ [CHR 0x5C] @ ''/script></svg>''"
  by (simp add: escapeSvgContent_def escapeBackslashes_def escapeBackticks_def)


subsection \<open>What the escaping does achieve\<close>

text \<open>
  The template literal itself is safe for every SVG text: the escaped text never ends
  the literal early and never opens a substitution, and the script reads back the text
  with its line endings normalised and its \<open></script>\<close> in lower case; a text without
  carriage return whose \<open></script>\<close> are all in lower case is read back exactly.
\<close>

lemma escapeInterpolations_Cons:
  "escapeInterpolations (c # t) =
     (if c = CHR 0x24 \<and> take 1 t = [CHR 0x7B] then [CHR 0x5C, c] else [c]) @ escapeInterpolations t"
proof (cases t)
  case Nil
  then show ?thesis by simp
next
  case (Cons d s)
  show ?thesis
  proof (cases s)
    case Nil
    with Cons show ?thesis by simp
  next
    case (Cons e u)
    with \<open>t = d # s\<close> show ?thesis by simp
  qed
qed

lemma escaped_head:
  "take 1 (escapeBackticks (escapeBackslashes cs)) = [CHR 0x7B] \<longleftrightarrow> take 1 cs = [CHR 0x7B]"
  by (cases cs) (auto simp: escapeBackticks_def escapeBackslashes_def)

lemma escape_passes_Cons:
  "escapeBackticks (escapeBackslashes (c # cs)) =
     (if c = CHR 0x5C \<or> c = CHR 0x60 then [CHR 0x5C, c] else [c])
       @ escapeBackticks (escapeBackslashes cs)"
  by (simp add: escapeBackticks_def escapeBackslashes_def)

lemma literal_passes:
  "escapeInterpolations (escapeBackticks (escapeBackslashes s)) = escapeForLiteral s"
proof (induction s)
  case Nil
  show ?case by (simp add: escapeBackticks_def escapeBackslashes_def)
next
  case (Cons c cs)
  show ?case
    unfolding escape_passes_Cons
    using Cons.IH escaped_head [of cs]
    by (simp add: escapeInterpolations_Cons del: escapeInterpolations.simps)
qed

lemma escapeForLiteral_plain:
  "\<forall>c \<in> set a. \<not> isLiteralSpecial c \<Longrightarrow> escapeForLiteral (a @ b) = a @ escapeForLiteral b"
  by (induction a) (auto simp: isLiteralSpecial_def)

lemma startsWithAnyCase_escaped:
  "\<forall>q \<in> set p. \<not> isLiteralSpecial (fst q) \<and> \<not> isLiteralSpecial (snd q) \<Longrightarrow>
     startsWithAnyCase p (escapeForLiteral cs) = startsWithAnyCase p cs"
proof (induction p arbitrary: cs)
  case Nil
  show ?case by simp
next
  case (Cons q ps)
  show ?case
  proof (cases cs)
    case Nil
    then show ?thesis by simp
  next
    case (Cons c cs')
    have ih: "startsWithAnyCase ps (escapeForLiteral cs') = startsWithAnyCase ps cs'"
      using Cons.IH Cons.prems by simp
    have q: "\<not> isLiteralSpecial (fst q)" "\<not> isLiteralSpecial (snd q)"
      using Cons.prems by simp_all
    show ?thesis
      using ih q unfolding Cons by (auto simp: isLiteralSpecial_def)
  qed
qed

lemma startsWithAnyCase_prefix:
  "startsWithAnyCase p s \<Longrightarrow>
     length p \<le> length s \<and> set (take (length p) s) \<subseteq> fst ` set p \<union> snd ` set p
     \<and> startsWithAnyCase p (take (length p) s @ t)"
proof (induction p s rule: startsWithAnyCase.induct)
  case (1 s)
  show ?case by simp
next
  case (2 p ps)
  then show ?case by simp
next
  case (3 p ps c cs)
  then show ?case by (auto split: if_splits)
qed

lemma cooked_plain:
  "c \<noteq> CHR 0x5C \<Longrightarrow> c \<noteq> CHR 0x60 \<Longrightarrow> c \<noteq> CHR 0x24 \<Longrightarrow> c \<noteq> CHR 0x0D \<Longrightarrow>
     templateCooked (c # t) = map_option (\<lambda>r. c # r) (templateCooked t)"
  by (cases t) auto

lemma cooked_dollar:
  "take 1 t \<noteq> [CHR 0x7B] \<Longrightarrow>
     templateCooked (CHR 0x24 # t) = map_option (\<lambda>r. CHR 0x24 # r) (templateCooked t)"
  by (cases t) auto

lemma cooked_return:
  "take 1 t \<noteq> [CHR 0x0A] \<Longrightarrow>
     templateCooked (CHR 0x0D # t) = map_option (\<lambda>r. CHR 0x0A # r) (templateCooked t)"
  by (cases t) auto

lemma cooked_return_feed:
  "templateCooked (CHR 0x0D # CHR 0x0A # t) = map_option (\<lambda>r. CHR 0x0A # r) (templateCooked t)"
  by simp

lemma cooked_escape:
  "d = CHR 0x5C \<or> d = CHR 0x60 \<or> d = CHR 0x24 \<or> d = CHR 0x2F \<Longrightarrow>
     templateCooked (CHR 0x5C # d # t) = map_option (\<lambda>r. d # r) (templateCooked t)"
  by auto

lemma cooked_script_close:
  "templateCooked ([CHR 0x3C, CHR 0x5C] @ ''/script>'' @ t) =
     map_option (\<lambda>r. ''</script>'' @ r) (templateCooked t)"
  by (simp add: cooked_plain cooked_escape option.map_comp comp_def
        del: templateCooked.simps)

lemma escapeScriptClose_other:
  "\<not> startsWithAnyCase (zip ''</script>'' ''</SCRIPT>'') (c # t) \<Longrightarrow>
     escapeScriptClose (c # t) = c # escapeScriptClose t"
  by simp

lemma escapeScriptClose_special:
  "isLiteralSpecial c \<or> c = CHR 0x0D \<or> c = CHR 0x0A \<or> c = CHR 0x7B \<Longrightarrow>
     escapeScriptClose (c # t) = c # escapeScriptClose t"
  by (auto simp: isLiteralSpecial_def)

lemma onePass_Nil: "escapeOnePass [] = []"
  by (simp add: escapeOnePass_def)

lemma onePass_match:
  assumes "startsWithAnyCase (zip ''</script>'' ''</SCRIPT>'') (c # cs)"
  shows "escapeOnePass (c # cs) = [CHR 0x3C, CHR 0x5C] @ ''/script>'' @ escapeOnePass (drop 8 cs)"
proof -
  let ?p = "zip ''</script>'' ''</SCRIPT>''"
  let ?b = "escapeForLiteral (drop 8 cs)"
  have lp: "length ?p = 9" by simp
  have pre: "length ?p \<le> length (c # cs)
      \<and> set (take (length ?p) (c # cs)) \<subseteq> fst ` set ?p \<union> snd ` set ?p
      \<and> startsWithAnyCase ?p (take (length ?p) (c # cs) @ ?b)"
    by (rule startsWithAnyCase_prefix [OF assms])
  have len: "8 \<le> length cs"
    using pre unfolding lp by simp
  have plain: "\<forall>x \<in> set (take 9 (c # cs)). \<not> isLiteralSpecial x"
    using pre unfolding lp by (auto simp: isLiteralSpecial_def)
  have a: "take 9 (c # cs) = c # take 8 cs" by simp
  have m: "startsWithAnyCase ?p (c # (take 8 cs @ ?b))"
    using pre unfolding lp a by (simp only: append_Cons)
  have split: "c # cs = take 9 (c # cs) @ drop 8 cs" by simp
  have "escapeForLiteral (c # cs) = escapeForLiteral (take 9 (c # cs) @ drop 8 cs)"
    using split by simp
  also have "\<dots> = take 9 (c # cs) @ ?b"
    by (rule escapeForLiteral_plain [OF plain])
  finally have f: "escapeForLiteral (c # cs) = c # (take 8 cs @ ?b)"
    unfolding a by simp
  have d: "drop 8 (take 8 cs @ ?b) = ?b"
    using len by simp
  have "escapeScriptClose (c # (take 8 cs @ ?b)) =
      [CHR 0x3C, CHR 0x5C] @ ''/script>'' @ escapeScriptClose (drop 8 (take 8 cs @ ?b))"
    using m by (simp only: escapeScriptClose.simps if_True)
  then show ?thesis
    unfolding escapeOnePass_def f d .
qed

lemma script_pattern_plain:
  "\<forall>q \<in> set (zip ''</script>'' ''</SCRIPT>'').
      \<not> isLiteralSpecial (fst q) \<and> \<not> isLiteralSpecial (snd q)"
  by (simp add: isLiteralSpecial_def)

lemma onePass_other:
  assumes "\<not> startsWithAnyCase (zip ''</script>'' ''</SCRIPT>'') (c # cs)"
  shows "escapeOnePass (c # cs) =
           (if c = CHR 0x5C \<or> c = CHR 0x60 \<or> (c = CHR 0x24 \<and> take 1 cs = [CHR 0x7B])
            then [CHR 0x5C, c] else [c]) @ escapeOnePass cs"
proof (cases "c = CHR 0x5C \<or> c = CHR 0x60 \<or> (c = CHR 0x24 \<and> take 1 cs = [CHR 0x7B])")
  case True
  then have sp: "isLiteralSpecial c" by (auto simp: isLiteralSpecial_def)
  have "escapeForLiteral (c # cs) = CHR 0x5C # c # escapeForLiteral cs"
    using True by simp
  moreover have "escapeScriptClose (CHR 0x5C # c # escapeForLiteral cs) =
      CHR 0x5C # c # escapeScriptClose (escapeForLiteral cs)"
    using sp by (simp add: escapeScriptClose_special isLiteralSpecial_def
          del: escapeScriptClose.simps)
  ultimately show ?thesis
    using True by (simp add: escapeOnePass_def del: escapeScriptClose.simps escapeForLiteral.simps)
next
  case False
  then have f: "escapeForLiteral (c # cs) = c # escapeForLiteral cs" by simp
  have "startsWithAnyCase (zip ''</script>'' ''</SCRIPT>'') (escapeForLiteral (c # cs)) =
      startsWithAnyCase (zip ''</script>'' ''</SCRIPT>'') (c # cs)"
    by (rule startsWithAnyCase_escaped [OF script_pattern_plain])
  then have "\<not> startsWithAnyCase (zip ''</script>'' ''</SCRIPT>'') (c # escapeForLiteral cs)"
    using assms unfolding f by simp
  then have "escapeScriptClose (c # escapeForLiteral cs) =
      c # escapeScriptClose (escapeForLiteral cs)"
    by (rule escapeScriptClose_other)
  then show ?thesis
    using False unfolding escapeOnePass_def f by simp
qed

lemma match_head:
  "startsWithAnyCase (zip ''</script>'' ''</SCRIPT>'') (c # cs) \<Longrightarrow> c = CHR 0x3C"
  by (simp split: if_splits)

lemma onePass_head:
  assumes "x = CHR 0x7B \<or> x = CHR 0x0A"
  shows "take 1 (escapeOnePass cs) = [x] \<longleftrightarrow> take 1 cs = [x]"
proof (cases cs)
  case Nil
  then show ?thesis by (simp add: onePass_Nil)
next
  case (Cons c cs')
  show ?thesis
  proof (cases "startsWithAnyCase (zip ''</script>'' ''</SCRIPT>'') (c # cs')")
    case True
    then show ?thesis
      using assms match_head [OF True] unfolding Cons onePass_match [OF True] by auto
  next
    case False
    show ?thesis
      using assms unfolding Cons onePass_other [OF False] by auto
  qed
qed

lemma template_literal_value:
  "templateCooked (escapeOnePass s) = Some (decodedSvg s)"
proof (induction s rule: decodedSvg.induct)
  case 1
  show ?case by (simp add: onePass_Nil)
next
  case (2 c cs)
  show ?case
  proof (cases "startsWithAnyCase (zip ''</script>'' ''</SCRIPT>'') (c # cs)")
    case True
    have ih: "templateCooked (escapeOnePass (drop 8 cs)) = Some (decodedSvg (drop 8 cs))"
      using "2.IH"(1) True by simp
    show ?thesis
      unfolding onePass_match [OF True] cooked_script_close ih
      using True by (simp del: startsWithAnyCase.simps)
  next
    case False
    note other = onePass_other [OF False]
    show ?thesis
    proof (cases "c = CHR 0x0D")
      case True
      have e: "escapeOnePass (c # cs) = CHR 0x0D # escapeOnePass cs"
        using other True by simp
      show ?thesis
      proof (cases "take 1 cs = [CHR 0x0A]")
        case feed: True
        then obtain cs' where cs: "cs = CHR 0x0A # cs'" by (cases cs) auto
        have nm: "\<not> startsWithAnyCase (zip ''</script>'' ''</SCRIPT>'') (CHR 0x0A # cs')"
          by simp
        have e2: "escapeOnePass cs = CHR 0x0A # escapeOnePass cs'"
          unfolding cs onePass_other [OF nm] by simp
        have ih: "templateCooked (escapeOnePass cs') = Some (decodedSvg cs')"
          using "2.IH"(2) False True cs by simp
        have d: "decodedSvg (c # cs) = CHR 0x0A # decodedSvg cs'"
          using False True cs by (simp del: startsWithAnyCase.simps)
        show ?thesis
          unfolding e e2 d cooked_return_feed ih by simp
      next
        case nofeed: False
        have h: "take 1 (escapeOnePass cs) \<noteq> [CHR 0x0A]"
          using nofeed onePass_head [of "CHR 0x0A" cs] by simp
        have ih: "templateCooked (escapeOnePass cs) = Some (decodedSvg cs)"
          using "2.IH"(2) False True nofeed by simp
        have d: "decodedSvg (c # cs) = CHR 0x0A # decodedSvg cs"
          using False True nofeed by (simp del: startsWithAnyCase.simps)
        show ?thesis
          unfolding e d cooked_return [OF h] ih by simp
      qed
    next
      case notCR: False
      have ih: "templateCooked (escapeOnePass cs) = Some (decodedSvg cs)"
        using "2.IH"(3) False notCR by simp
      have d: "decodedSvg (c # cs) = c # decodedSvg cs"
        using False notCR by (simp del: startsWithAnyCase.simps)
      show ?thesis
      proof (cases "c = CHR 0x5C \<or> c = CHR 0x60 \<or> (c = CHR 0x24 \<and> take 1 cs = [CHR 0x7B])")
        case True
        then have e: "escapeOnePass (c # cs) = CHR 0x5C # c # escapeOnePass cs"
          using other by simp
        have k: "c = CHR 0x5C \<or> c = CHR 0x60 \<or> c = CHR 0x24 \<or> c = CHR 0x2F"
          using True by auto
        show ?thesis
          unfolding e d cooked_escape [OF k] ih by simp
      next
        case plain: False
        then have e: "escapeOnePass (c # cs) = c # escapeOnePass cs"
          using other by simp
        show ?thesis
        proof (cases "c = CHR 0x24")
          case True
          with plain have "take 1 cs \<noteq> [CHR 0x7B]" by simp
          then have h: "take 1 (escapeOnePass cs) \<noteq> [CHR 0x7B]"
            using onePass_head [of "CHR 0x7B" cs] by simp
          have "templateCooked (CHR 0x24 # escapeOnePass cs) =
              map_option (\<lambda>r. CHR 0x24 # r) (templateCooked (escapeOnePass cs))"
            by (rule cooked_dollar [OF h])
          then show ?thesis
            using e d ih True by simp
        next
          case False
          have "templateCooked (c # escapeOnePass cs) =
              map_option (\<lambda>r. c # r) (templateCooked (escapeOnePass cs))"
            using plain False notCR by (intro cooked_plain) auto
          then show ?thesis
            unfolding e d ih by simp
        qed
      qed
    qed
  qed
qed

lemma lowerCaseCloseTags_tail: "lowerCaseCloseTags (c # cs) \<Longrightarrow> lowerCaseCloseTags cs"
  by (simp only: lowerCaseCloseTags.simps)

lemma lowerCaseCloseTags_drop: "lowerCaseCloseTags s \<Longrightarrow> lowerCaseCloseTags (drop n s)"
proof (induction n arbitrary: s)
  case 0
  then show ?case by simp
next
  case (Suc n)
  show ?case
  proof (cases s)
    case Nil
    then show ?thesis by simp
  next
    case (Cons c cs)
    have "lowerCaseCloseTags cs"
      using Suc.prems unfolding Cons by (rule lowerCaseCloseTags_tail)
    then have "lowerCaseCloseTags (drop n cs)" by (rule Suc.IH)
    then show ?thesis unfolding Cons by simp
  qed
qed

lemma decodedSvg_exact:
  "CHR 0x0D \<notin> set s \<Longrightarrow> lowerCaseCloseTags s \<Longrightarrow> decodedSvg s = s"
proof (induction s rule: decodedSvg.induct)
  case 1
  show ?case by simp
next
  case (2 c cs)
  show ?case
  proof (cases "startsWithAnyCase (zip ''</script>'' ''</SCRIPT>'') (c # cs)")
    case True
    have t: "take 9 (c # cs) = ''</script>''"
      using "2.prems"(2) True by (simp only: lowerCaseCloseTags.simps if_True)
    have "CHR 0x0D \<notin> set (drop 8 cs)"
      using "2.prems"(1) by (auto dest: in_set_dropD)
    moreover have "lowerCaseCloseTags (drop 8 cs)"
      by (rule lowerCaseCloseTags_drop [OF lowerCaseCloseTags_tail [OF "2.prems"(2)]])
    ultimately have ih: "decodedSvg (drop 8 cs) = drop 8 cs"
      using "2.IH"(1) True by simp
    have "c # cs = take 9 (c # cs) @ drop 8 cs" by simp
    then have "c # cs = ''</script>'' @ drop 8 cs" unfolding t .
    moreover have "decodedSvg (c # cs) = ''</script>'' @ drop 8 cs"
      using True ih by (simp del: startsWithAnyCase.simps)
    ultimately show ?thesis by simp
  next
    case False
    have ncr: "c \<noteq> CHR 0x0D" using "2.prems"(1) by auto
    have "CHR 0x0D \<notin> set cs" using "2.prems"(1) by simp
    moreover have "lowerCaseCloseTags cs"
      using "2.prems"(2) by (rule lowerCaseCloseTags_tail)
    ultimately have "decodedSvg cs = cs"
      using "2.IH"(3) False ncr by simp
    then show ?thesis
      using False ncr by (simp del: startsWithAnyCase.simps)
  qed
qed

theorem escape_literal_safe:
  "templateCooked (escapeSvgContent s) = Some (decodedSvg s)
   \<and> (CHR 0x0D \<notin> set s \<and> lowerCaseCloseTags s \<longrightarrow> templateCooked (escapeSvgContent s) = Some s)"
proof -
  have "escapeSvgContent s = escapeOnePass s"
    by (simp add: escapeSvgContent_def escapeOnePass_def literal_passes)
  then show ?thesis
    by (simp add: template_literal_value decodedSvg_exact)
qed


section \<open>Properties of the selection\<close>









end
